theory Spec2Isabelle
  imports Complex_Main "HOL-Library.Option_ord" "HOL-Library.Product_Lexorder"
begin

section \<open>Data model (database/functional/structure.sql)\<close>

text \<open>
  A table is the list of its rows, in the order of its clustered primary key. A column
  is a record field named by the alias the routines use for its table
  (\<open>[prd].[stock]\<close> is \<open>prd_stock\<close>). \<open>BIT\<close> is \<open>bool\<close>, \<open>INTEGER\<close> is \<open>int\<close>,
  \<open>NVARCHAR\<close> is \<open>string\<close>, a column that admits \<open>NULL\<close> is an \<open>option\<close>.
  \<open>NUMERIC(18, 6)\<close> is a fixed-point number: the model holds the value times \<open>10^6\<close>
  as an \<open>int\<close> (20.00 is \<open>20000000\<close>), so that sums and products by integers are exact,
  as they are in the database. \<open>NUMERIC(3, 1)\<close> is the value times 10. \<open>DATETIME2\<close> is an
  \<open>int\<close> (ticks). Columns no modelled routine reads or writes are left out.
\<close>

type_synonym numeric6 = int

record product_row =
  prd_idProduct :: int
  prd_idAccount :: int
  prd_idCategory :: int
  prd_idConfectioner :: int
  prd_name :: string
  prd_description :: string
  prd_ingredients :: string
  prd_basePrice :: numeric6
  prd_promotionalPrice :: "numeric6 option"
  prd_isPromotion :: bool
  prd_available :: bool
  prd_stock :: int
  prd_preparationTime :: string
  prd_averageRating :: int
  prd_totalReviews :: int
  prd_totalSales :: int
  prd_dateCreated :: int
  prd_deleted :: bool

record flavor_row =
  flv_idFlavor :: int
  flv_idAccount :: int
  flv_name :: string
  flv_description :: string
  flv_deleted :: bool

record size_row =
  siz_idSize :: int
  siz_idAccount :: int
  siz_name :: string
  siz_description :: string
  siz_servings :: int
  siz_priceModifier :: numeric6
  siz_deleted :: bool

record confectioner_row =
  cnf_idConfectioner :: int
  cnf_idAccount :: int
  cnf_name :: string
  cnf_deleted :: bool

record productImage_row =
  prdImg_idProductImage :: int
  prdImg_idAccount :: int
  prdImg_idProduct :: int
  prdImg_imageUrl :: string
  prdImg_isPrimary :: bool

record productFlavor_row =
  prdFlv_idAccount :: int
  prdFlv_idProduct :: int
  prdFlv_idFlavor :: int
  prdFlv_available :: bool

record productSize_row =
  prdSiz_idAccount :: int
  prdSiz_idProduct :: int
  prdSiz_idSize :: int
  prdSiz_available :: bool

record cart_row =
  crt_idCart :: int
  crt_idAccount :: int
  crt_sessionId :: string
  crt_dateCreated :: int
  crt_dateModified :: int

record cartItem_row =
  crtItm_idCartItem :: int
  crtItm_idAccount :: int
  crtItm_idCart :: int
  crtItm_idProduct :: int
  crtItm_idFlavor :: int
  crtItm_idSize :: int
  crtItm_quantity :: int
  crtItm_unitPrice :: numeric6
  crtItm_totalPrice :: numeric6
  crtItm_observations :: "string option"
  crtItm_dateCreated :: int
  crtItm_dateModified :: int

text \<open>
  The database: the tables, and for the two tables the routines insert into the next
  value of their \<open>IDENTITY(1, 1)\<close> column. An identity value that was handed out is not
  handed out again, also when the transaction that took it is rolled back. The end of
  the \<open>INTEGER\<close> range of an identity column is not modelled.
\<close>

record db =
  tbl_product :: "product_row list"
  tbl_flavor :: "flavor_row list"
  tbl_size :: "size_row list"
  tbl_confectioner :: "confectioner_row list"
  tbl_productImage :: "productImage_row list"
  tbl_productFlavor :: "productFlavor_row list"
  tbl_productSize :: "productSize_row list"
  tbl_cart :: "cart_row list"
  tbl_cartItem :: "cartItem_row list"
  identCart :: int
  identCartItem :: int

section \<open>Errors\<close>

text \<open>
  \<open>Throw51000 m\<close> is \<open>THROW 51000, 'm', 1\<close>, the error number the handlers answer with
  HTTP 400. The others are errors of the database engine or its driver, which the
  handlers answer with HTTP 500: 8115 (a value does not fit an \<open>INT\<close> or a
  \<open>NUMERIC(18, 6)\<close>), 515 (\<open>NULL\<close> written to a \<open>NOT NULL\<close> column), and a number
  that cannot be bound to an \<open>INT\<close> parameter.
\<close>

datatype message =
    idAccountRequired | sessionIdRequired | idProductRequired | idFlavorRequired
  | idSizeRequired | quantityMustBeGreaterThanZero | quantityExceedsMaximum
  | productDoesntExist | productNotAvailable | flavorNotAvailable | sizeNotAvailable

datatype error =
  Throw51000 message | ArithmeticOverflow8115 | CannotInsertNull515 | CannotBindInt

definition fitsInt :: "int \<Rightarrow> bool" where
  "fitsInt n \<longleftrightarrow> - 2147483648 \<le> n \<and> n \<le> 2147483647"

definition fitsNumeric18_6 :: "numeric6 \<Rightarrow> bool" where
  "fitsNumeric18_6 v \<longleftrightarrow> - (10 ^ 18) < v \<and> v < 10 ^ 18"

section \<open>spCartItemAdd (database/functional/product/spProductRelated.sql)\<close>

text \<open>\<open>LEN\<close> does not count trailing blanks.\<close>

definition LEN :: "string \<Rightarrow> nat" where
  "LEN s = length (dropWhile (\<lambda>c. c = CHR '' '') (rev s))"

text \<open>
  \<open>SELECT @v = e FROM ... WHERE ...\<close> assigns once for every row of the result, so the
  variable ends as the value of the last row, and keeps its old value (\<open>NULL\<close> after
  \<open>DECLARE\<close>) when there is no row.
\<close>

definition selectLast :: "'a list \<Rightarrow> 'a option" where
  "selectLast rows = (if rows = [] then None else Some (last rows))"

definition productExists :: "db \<Rightarrow> int \<Rightarrow> int \<Rightarrow> bool" where
  "productExists d idAccount idProduct =
     list_ex (\<lambda>prd. prd_idAccount prd = idAccount \<and> prd_idProduct prd = idProduct
                    \<and> \<not> prd_deleted prd) (tbl_product d)"

definition productAvailable :: "db \<Rightarrow> int \<Rightarrow> int \<Rightarrow> bool" where
  "productAvailable d idAccount idProduct =
     list_ex (\<lambda>prd. prd_idAccount prd = idAccount \<and> prd_idProduct prd = idProduct
                    \<and> prd_available prd \<and> prd_stock prd > 0 \<and> \<not> prd_deleted prd)
             (tbl_product d)"

definition flavorAvailable :: "db \<Rightarrow> int \<Rightarrow> int \<Rightarrow> int \<Rightarrow> bool" where
  "flavorAvailable d idAccount idProduct idFlavor =
     list_ex (\<lambda>prdFlv. prdFlv_idAccount prdFlv = idAccount
                       \<and> prdFlv_idProduct prdFlv = idProduct
                       \<and> prdFlv_idFlavor prdFlv = idFlavor
                       \<and> prdFlv_available prdFlv) (tbl_productFlavor d)"

definition sizeAvailable :: "db \<Rightarrow> int \<Rightarrow> int \<Rightarrow> int \<Rightarrow> bool" where
  "sizeAvailable d idAccount idProduct idSize =
     list_ex (\<lambda>prdSiz. prdSiz_idAccount prdSiz = idAccount
                       \<and> prdSiz_idProduct prdSiz = idProduct
                       \<and> prdSiz_idSize prdSiz = idSize
                       \<and> prdSiz_available prdSiz) (tbl_productSize d)"

text \<open>
  The cart of the session: \<open>SELECT @idCart = [crt].[idCart] ...\<close>. The comparison of
  session identifiers, which is that of the collation of the database, is equality of
  strings here.
\<close>

definition selectCart :: "db \<Rightarrow> int \<Rightarrow> string \<Rightarrow> int option" where
  "selectCart d idAccount sessionId =
     selectLast (map crt_idCart
       (filter (\<lambda>crt. crt_idAccount crt = idAccount \<and> crt_sessionId crt = sessionId)
               (tbl_cart d)))"

text \<open>
  \<open>IF (@idCart IS NULL) INSERT INTO cart ...; SET @idCart = SCOPE_IDENTITY()\<close>. The
  dates of the new row are the column default \<open>GETUTCDATE()\<close>, the argument \<open>now\<close>.
\<close>

definition ensureCart :: "int \<Rightarrow> db \<Rightarrow> int \<Rightarrow> string \<Rightarrow> int \<times> db" where
  "ensureCart now d idAccount sessionId =
     (case selectCart d idAccount sessionId of
        Some idCart \<Rightarrow> (idCart, d)
      | None \<Rightarrow>
          (identCart d,
           d\<lparr>tbl_cart := tbl_cart d @
                [\<lparr>crt_idCart = identCart d, crt_idAccount = idAccount,
                  crt_sessionId = sessionId, crt_dateCreated = now,
                  crt_dateModified = now\<rparr>],
             identCart := identCart d + 1\<rparr>))"

text \<open>
  Rule br-013: the rows of \<open>product JOIN size\<close> for the product and the size, each
  giving the unit price \<open>CASE WHEN isPromotion = 1 THEN promotionalPrice + priceModifier
  ELSE basePrice + priceModifier END\<close>; \<open>NULL\<close> when the promotional price is \<open>NULL\<close>.
\<close>

definition unitPriceRows :: "db \<Rightarrow> int \<Rightarrow> int \<Rightarrow> int \<Rightarrow> numeric6 option list" where
  "unitPriceRows d idAccount idProduct idSize =
     concat (map (\<lambda>prd. concat (map (\<lambda>siz.
         if siz_idAccount siz = prd_idAccount prd
            \<and> prd_idAccount prd = idAccount \<and> prd_idProduct prd = idProduct
            \<and> siz_idSize siz = idSize
         then [if prd_isPromotion prd
               then map_option (\<lambda>p. p + siz_priceModifier siz) (prd_promotionalPrice prd)
               else Some (prd_basePrice prd + siz_priceModifier siz)]
         else []) (tbl_size d))) (tbl_product d))"

definition overflows :: "numeric6 option \<Rightarrow> bool" where
  "overflows v = (case v of None \<Rightarrow> False | Some x \<Rightarrow> \<not> fitsNumeric18_6 x)"

text \<open>\<open>SELECT @unitPrice = CASE ... END FROM product JOIN size ...\<close>, \<open>NULL\<close> without a row.\<close>

definition selectUnitPrice :: "db \<Rightarrow> int \<Rightarrow> int \<Rightarrow> int \<Rightarrow> numeric6 option" where
  "selectUnitPrice d idAccount idProduct idSize =
     (case selectLast (unitPriceRows d idAccount idProduct idSize) of
        None \<Rightarrow> None | Some v \<Rightarrow> v)"

text \<open>Rule br-020: the rows of \<open>cartItem\<close> for (cart, product, flavor, size).\<close>

definition cartItemRows :: "db \<Rightarrow> int \<Rightarrow> int \<Rightarrow> int \<Rightarrow> int \<Rightarrow> int \<Rightarrow> cartItem_row list" where
  "cartItemRows d idAccount idCart idProduct idFlavor idSize =
     filter (\<lambda>crtItm. crtItm_idAccount crtItm = idAccount
                     \<and> crtItm_idCart crtItm = idCart
                     \<and> crtItm_idProduct crtItm = idProduct
                     \<and> crtItm_idFlavor crtItm = idFlavor
                     \<and> crtItm_idSize crtItm = idSize) (tbl_cartItem d)"

text \<open>
  \<open>UPDATE cartItem SET quantity = @newQuantity, totalPrice = @totalPrice, observations =
  COALESCE(@observations, observations), dateModified = GETUTCDATE() WHERE idCartItem =
  @idCartItem\<close>. The column \<open>unitPrice\<close> is not in the \<open>SET\<close> list.
\<close>

definition updateCartItem ::
  "int \<Rightarrow> int \<Rightarrow> int \<Rightarrow> numeric6 \<Rightarrow> string option \<Rightarrow> cartItem_row \<Rightarrow> cartItem_row" where
  "updateCartItem now idCartItem newQuantity totalPrice observations crtItm =
     (if crtItm_idCartItem crtItm = idCartItem
      then crtItm\<lparr>crtItm_quantity := newQuantity,
                  crtItm_totalPrice := totalPrice,
                  crtItm_observations :=
                    (case observations of Some obs \<Rightarrow> Some obs
                     | None \<Rightarrow> crtItm_observations crtItm),
                  crtItm_dateModified := now\<rparr>
      else crtItm)"

text \<open>
  The statements between \<open>BEGIN TRAN\<close> and \<open>COMMIT TRAN\<close> once the arguments are known
  not to be \<open>NULL\<close>. The result is the error raised or \<open>@idCartItem\<close>, with the database
  as the statements left it.
\<close>

definition cartItemAddTran ::
  "int \<Rightarrow> db \<Rightarrow> int \<Rightarrow> string \<Rightarrow> int \<Rightarrow> int \<Rightarrow> int \<Rightarrow> int \<Rightarrow> string option
     \<Rightarrow> (error + int) \<times> db" where
  "cartItemAddTran now d idAccount sessionId idProduct idFlavor idSize quantity observations =
    (if \<not> productExists d idAccount idProduct
       then (Inl (Throw51000 productDoesntExist), d)
     else if \<not> productAvailable d idAccount idProduct
       then (Inl (Throw51000 productNotAvailable), d)
     else if \<not> flavorAvailable d idAccount idProduct idFlavor
       then (Inl (Throw51000 flavorNotAvailable), d)
     else if \<not> sizeAvailable d idAccount idProduct idSize
       then (Inl (Throw51000 sizeNotAvailable), d)
     else
       let (idCart, d1) = ensureCart now d idAccount sessionId;
           prices = unitPriceRows d1 idAccount idProduct idSize
       in if list_ex overflows prices then (Inl ArithmeticOverflow8115, d1)
       else
         let unitPrice = selectUnitPrice d1 idAccount idProduct idSize;
             totalPrice = map_option (\<lambda>u. u * quantity) unitPrice
         in if overflows totalPrice then (Inl ArithmeticOverflow8115, d1)
         else
           (case selectLast (cartItemRows d1 idAccount idCart idProduct idFlavor idSize) of
              Some crtItm \<Rightarrow>
                let idCartItem = crtItm_idCartItem crtItm;
                    newQuantity = crtItm_quantity crtItm + quantity
                in if \<not> fitsInt newQuantity then (Inl ArithmeticOverflow8115, d1)
                else if newQuantity > 10
                  then (Inl (Throw51000 quantityExceedsMaximum), d1)
                else
                  (case unitPrice of
                     None \<Rightarrow> (Inl CannotInsertNull515, d1)
                   | Some u \<Rightarrow>
                       if \<not> fitsNumeric18_6 (u * newQuantity)
                       then (Inl ArithmeticOverflow8115, d1)
                       else (Inr idCartItem,
                             d1\<lparr>tbl_cartItem :=
                                  map (updateCartItem now idCartItem newQuantity
                                         (u * newQuantity) observations)
                                      (tbl_cartItem d1)\<rparr>))
            | None \<Rightarrow>
                (case unitPrice of
                   None \<Rightarrow>
                     (Inl CannotInsertNull515, d1\<lparr>identCartItem := identCartItem d1 + 1\<rparr>)
                 | Some u \<Rightarrow>
                     (Inr (identCartItem d1),
                      d1\<lparr>tbl_cartItem := tbl_cartItem d1 @
                           [\<lparr>crtItm_idCartItem = identCartItem d1,
                             crtItm_idAccount = idAccount,
                             crtItm_idCart = idCart,
                             crtItm_idProduct = idProduct,
                             crtItm_idFlavor = idFlavor,
                             crtItm_idSize = idSize,
                             crtItm_quantity = quantity,
                             crtItm_unitPrice = u,
                             crtItm_totalPrice = u * quantity,
                             crtItm_observations = observations,
                             crtItm_dateCreated = now,
                             crtItm_dateModified = now\<rparr>],
                         identCartItem := identCartItem d1 + 1\<rparr>))))"

text \<open>The row of the result set \<open>CartItemResult\<close>.\<close>

record CartItemResult =
  res_idCartItem :: int
  res_idCart :: int
  res_quantity :: int
  res_unitPrice :: numeric6
  res_totalPrice :: numeric6

definition cartItemResult :: "db \<Rightarrow> int \<Rightarrow> CartItemResult list" where
  "cartItemResult d idCartItem =
     map (\<lambda>crtItm. \<lparr>res_idCartItem = crtItm_idCartItem crtItm,
                    res_idCart = crtItm_idCart crtItm,
                    res_quantity = crtItm_quantity crtItm,
                    res_unitPrice = crtItm_unitPrice crtItm,
                    res_totalPrice = crtItm_totalPrice crtItm\<rparr>)
         (filter (\<lambda>crtItm. crtItm_idCartItem crtItm = idCartItem) (tbl_cartItem d))"

text \<open>
  The parameter checks, with every \<open>THROW\<close> in the order of the source.
\<close>

definition cartItemAddTry ::
  "int \<Rightarrow> db \<Rightarrow> int option \<Rightarrow> string option \<Rightarrow> int option \<Rightarrow> int option \<Rightarrow> int option
     \<Rightarrow> int option \<Rightarrow> string option \<Rightarrow> (error + int) \<times> db" where
  "cartItemAddTry now d idAccount sessionId idProduct idFlavor idSize quantity observations =
    (case idAccount of None \<Rightarrow> (Inl (Throw51000 idAccountRequired), d) | Some a \<Rightarrow>
    (case sessionId of None \<Rightarrow> (Inl (Throw51000 sessionIdRequired), d) | Some s \<Rightarrow>
    (if LEN s = 0 then (Inl (Throw51000 sessionIdRequired), d) else
    (case idProduct of None \<Rightarrow> (Inl (Throw51000 idProductRequired), d) | Some p \<Rightarrow>
    (case idFlavor of None \<Rightarrow> (Inl (Throw51000 idFlavorRequired), d) | Some f \<Rightarrow>
    (case idSize of None \<Rightarrow> (Inl (Throw51000 idSizeRequired), d) | Some z \<Rightarrow>
    (case quantity of None \<Rightarrow> (Inl (Throw51000 quantityMustBeGreaterThanZero), d)
     | Some q \<Rightarrow>
    (if q < 1 then (Inl (Throw51000 quantityMustBeGreaterThanZero), d) else
    (if q > 10 then (Inl (Throw51000 quantityExceedsMaximum), d) else
     cartItemAddTran now d a s p f z q observations)))))))))"

text \<open>
  The procedure: \<open>BEGIN TRY BEGIN TRAN ... COMMIT TRAN; SELECT ... END TRY BEGIN CATCH
  ROLLBACK TRAN; THROW; END CATCH\<close>. On an error every table is as it was at
  \<open>BEGIN TRAN\<close> and the error is raised again; the identity values taken are gone.
\<close>

definition spCartItemAdd ::
  "int \<Rightarrow> db \<Rightarrow> int option \<Rightarrow> string option \<Rightarrow> int option \<Rightarrow> int option \<Rightarrow> int option
     \<Rightarrow> int option \<Rightarrow> string option \<Rightarrow> (error + CartItemResult list) \<times> db" where
  "spCartItemAdd now d idAccount sessionId idProduct idFlavor idSize quantity observations =
    (case cartItemAddTry now d idAccount sessionId idProduct idFlavor idSize quantity
            observations of
       (Inl e, d') \<Rightarrow>
         (Inl e, d\<lparr>identCart := identCart d', identCartItem := identCartItem d'\<rparr>)
     | (Inr idCartItem, d') \<Rightarrow> (Inr (cartItemResult d' idCartItem), d'))"

section \<open>spProductList (database/functional/product/spProductList.sql)\<close>

text \<open>
  Two operations of the database engine are arguments of the model, since the routine
  only calls them: \<open>csv t\<close> is the list of integers that \<open>SELECT CAST([value] AS INT)
  FROM STRING_SPLIT(t, ',')\<close> gives, and \<open>like x p\<close> is \<open>x LIKE p\<close> under the collation
  of the database. Text is compared with \<open>=\<close> as equality of strings.
\<close>

text \<open>The column \<open>price\<close>: \<open>CASE WHEN isPromotion = 1 THEN promotionalPrice ELSE basePrice END\<close>.\<close>

definition price :: "product_row \<Rightarrow> numeric6 option" where
  "price prd = (if prd_isPromotion prd then prd_promotionalPrice prd
                else Some (prd_basePrice prd))"

definition originalPrice :: "product_row \<Rightarrow> numeric6 option" where
  "originalPrice prd = (if prd_isPromotion prd then Some (prd_basePrice prd) else None)"

text \<open>
  The \<open>WHERE\<close> clause of the page query (lines 153 to 220). A comparison with \<open>NULL\<close>
  is not true, so a product whose \<open>price\<close> is \<open>NULL\<close> passes no price bound.
\<close>

definition pageWhere ::
  "(string \<Rightarrow> int list) \<Rightarrow> (string \<Rightarrow> string \<Rightarrow> bool) \<Rightarrow> db \<Rightarrow> int \<Rightarrow> string option
     \<Rightarrow> string option \<Rightarrow> string option \<Rightarrow> numeric6 option \<Rightarrow> numeric6 option
     \<Rightarrow> string option \<Rightarrow> string \<Rightarrow> string option
     \<Rightarrow> product_row \<Rightarrow> confectioner_row \<Rightarrow> bool" where
  "pageWhere csv like d idAccount categoryIds flavorIds sizeIds minPrice maxPrice
       confectionerIds availability searchTerm prd cnf \<longleftrightarrow>
     prd_idAccount prd = idAccount
     \<and> \<not> prd_deleted prd
     \<and> \<not> cnf_deleted cnf
     \<and> ((availability = ''disponivel'' \<and> prd_available prd \<and> prd_stock prd > 0)
        \<or> (availability = ''indisponivel'' \<and> (\<not> prd_available prd \<or> prd_stock prd = 0))
        \<or> availability = ''todos'')
     \<and> (case categoryIds of None \<Rightarrow> True
        | Some t \<Rightarrow> prd_idCategory prd \<in> set (csv t))
     \<and> (case flavorIds of None \<Rightarrow> True
        | Some t \<Rightarrow>
            list_ex (\<lambda>prdFlv. prdFlv_idAccount prdFlv = prd_idAccount prd
                              \<and> prdFlv_idProduct prdFlv = prd_idProduct prd
                              \<and> prdFlv_idFlavor prdFlv \<in> set (csv t)
                              \<and> prdFlv_available prdFlv) (tbl_productFlavor d))
     \<and> (case sizeIds of None \<Rightarrow> True
        | Some t \<Rightarrow>
            list_ex (\<lambda>prdSiz. prdSiz_idAccount prdSiz = prd_idAccount prd
                              \<and> prdSiz_idProduct prdSiz = prd_idProduct prd
                              \<and> prdSiz_idSize prdSiz \<in> set (csv t)
                              \<and> prdSiz_available prdSiz) (tbl_productSize d))
     \<and> (case minPrice of None \<Rightarrow> True
        | Some m \<Rightarrow> (case price prd of None \<Rightarrow> False | Some v \<Rightarrow> v \<ge> m))
     \<and> (case maxPrice of None \<Rightarrow> True
        | Some m \<Rightarrow> (case price prd of None \<Rightarrow> False | Some v \<Rightarrow> v \<le> m))
     \<and> (case confectionerIds of None \<Rightarrow> True
        | Some t \<Rightarrow> prd_idConfectioner prd \<in> set (csv t))
     \<and> (case searchTerm of None \<Rightarrow> True
        | Some t \<Rightarrow> like (prd_name prd) (''%'' @ t @ ''%'')
                  \<or> like (prd_description prd) (''%'' @ t @ ''%'')
                  \<or> like (prd_ingredients prd) (''%'' @ t @ ''%''))"

text \<open>The \<open>WHERE\<close> clause of the count query (lines 255 to 316), written out again.\<close>

definition countWhere ::
  "(string \<Rightarrow> int list) \<Rightarrow> (string \<Rightarrow> string \<Rightarrow> bool) \<Rightarrow> db \<Rightarrow> int \<Rightarrow> string option
     \<Rightarrow> string option \<Rightarrow> string option \<Rightarrow> numeric6 option \<Rightarrow> numeric6 option
     \<Rightarrow> string option \<Rightarrow> string \<Rightarrow> string option
     \<Rightarrow> product_row \<Rightarrow> confectioner_row \<Rightarrow> bool" where
  "countWhere csv like d idAccount categoryIds flavorIds sizeIds minPrice maxPrice
       confectionerIds availability searchTerm prd cnf \<longleftrightarrow>
     prd_idAccount prd = idAccount
     \<and> \<not> prd_deleted prd
     \<and> \<not> cnf_deleted cnf
     \<and> ((availability = ''disponivel'' \<and> prd_available prd \<and> prd_stock prd > 0)
        \<or> (availability = ''indisponivel'' \<and> (\<not> prd_available prd \<or> prd_stock prd = 0))
        \<or> availability = ''todos'')
     \<and> (case categoryIds of None \<Rightarrow> True
        | Some t \<Rightarrow> prd_idCategory prd \<in> set (csv t))
     \<and> (case flavorIds of None \<Rightarrow> True
        | Some t \<Rightarrow>
            list_ex (\<lambda>prdFlv. prdFlv_idAccount prdFlv = prd_idAccount prd
                              \<and> prdFlv_idProduct prdFlv = prd_idProduct prd
                              \<and> prdFlv_idFlavor prdFlv \<in> set (csv t)
                              \<and> prdFlv_available prdFlv) (tbl_productFlavor d))
     \<and> (case sizeIds of None \<Rightarrow> True
        | Some t \<Rightarrow>
            list_ex (\<lambda>prdSiz. prdSiz_idAccount prdSiz = prd_idAccount prd
                              \<and> prdSiz_idProduct prdSiz = prd_idProduct prd
                              \<and> prdSiz_idSize prdSiz \<in> set (csv t)
                              \<and> prdSiz_available prdSiz) (tbl_productSize d))
     \<and> (case minPrice of None \<Rightarrow> True
        | Some m \<Rightarrow> (case price prd of None \<Rightarrow> False | Some v \<Rightarrow> v \<ge> m))
     \<and> (case maxPrice of None \<Rightarrow> True
        | Some m \<Rightarrow> (case price prd of None \<Rightarrow> False | Some v \<Rightarrow> v \<le> m))
     \<and> (case confectionerIds of None \<Rightarrow> True
        | Some t \<Rightarrow> prd_idConfectioner prd \<in> set (csv t))
     \<and> (case searchTerm of None \<Rightarrow> True
        | Some t \<Rightarrow> like (prd_name prd) (''%'' @ t @ ''%'')
                  \<or> like (prd_description prd) (''%'' @ t @ ''%'')
                  \<or> like (prd_ingredients prd) (''%'' @ t @ ''%''))"

text \<open>\<open>product JOIN confectioner ON (idAccount, idConfectioner)\<close>, the rows of both queries.\<close>

definition joinConfectioner :: "db \<Rightarrow> (product_row \<times> confectioner_row) list" where
  "joinConfectioner d =
     concat (map (\<lambda>prd.
       map (\<lambda>cnf. (prd, cnf))
         (filter (\<lambda>cnf. cnf_idAccount cnf = prd_idAccount prd
                       \<and> cnf_idConfectioner cnf = prd_idConfectioner prd)
                 (tbl_confectioner d))) (tbl_product d))"

text \<open>
  \<open>LEFT JOIN productImage ON (idAccount, idProduct, isPrimary = 1)\<close>: one row for every
  primary image of the product, and one row without image when it has none.
\<close>

definition leftJoinImage ::
  "db \<Rightarrow> product_row \<times> confectioner_row
     \<Rightarrow> (product_row \<times> confectioner_row \<times> productImage_row option) list" where
  "leftJoinImage d row =
     (let images = filter (\<lambda>prdImg. prdImg_idAccount prdImg = prd_idAccount (fst row)
                                  \<and> prdImg_idProduct prdImg = prd_idProduct (fst row)
                                  \<and> prdImg_isPrimary prdImg) (tbl_productImage d)
      in if images = [] then [(fst row, snd row, None)]
         else map (\<lambda>prdImg. (fst row, snd row, Some prdImg)) images)"

text \<open>
  \<open>ORDER BY\<close>: a \<open>CASE WHEN @sortBy = k THEN e END\<close> is \<open>NULL\<close> for every row unless
  \<open>k\<close> is the key asked for. Ascending order has \<open>NULL\<close> first (\<open>None\<close> is the least
  element of an \<open>option\<close>); descending order has it last and the greatest value first.
\<close>

definition whenSort :: "string \<Rightarrow> string \<Rightarrow> int option \<Rightarrow> int option" where
  "whenSort sortBy k v = (if sortBy = k then v else None)"

definition descending :: "int option \<Rightarrow> bool \<times> int option" where
  "descending v = (v = None, map_option uminus v)"

definition orderKey ::
  "string \<Rightarrow> product_row
     \<Rightarrow> int option \<times> (bool \<times> int option) \<times> (bool \<times> int option) \<times> (bool \<times> int option)
        \<times> (bool \<times> int option) \<times> int" where
  "orderKey sortBy prd =
     (whenSort sortBy ''preco_menor'' (price prd),
      descending (whenSort sortBy ''preco_maior'' (price prd)),
      descending (whenSort sortBy ''mais_vendidos'' (Some (prd_totalSales prd))),
      descending (whenSort sortBy ''melhor_avaliados'' (Some (prd_averageRating prd))),
      descending (whenSort sortBy ''mais_recentes'' (Some (prd_dateCreated prd))),
      prd_idProduct prd)"

record ProductList =
  pl_idProduct :: int
  pl_name :: string
  pl_imageUrl :: "string option"
  pl_price :: "numeric6 option"
  pl_originalPrice :: "numeric6 option"
  pl_isPromotion :: bool
  pl_averageRating :: int
  pl_totalReviews :: int
  pl_confectionerName :: string
  pl_available :: bool
  pl_preparationTime :: string

record Pagination =
  pag_totalItems :: int
  pag_totalPages :: int
  pag_currentPage :: int
  pag_pageSize :: int

definition productListRow ::
  "product_row \<times> confectioner_row \<times> productImage_row option \<Rightarrow> ProductList" where
  "productListRow row =
     (case row of (prd, cnf, prdImg) \<Rightarrow>
        \<lparr>pl_idProduct = prd_idProduct prd,
         pl_name = prd_name prd,
         pl_imageUrl = map_option prdImg_imageUrl prdImg,
         pl_price = price prd,
         pl_originalPrice = originalPrice prd,
         pl_isPromotion = prd_isPromotion prd,
         pl_averageRating = prd_averageRating prd,
         pl_totalReviews = prd_totalReviews prd,
         pl_confectionerName = cnf_name cnf,
         pl_available = prd_available prd,
         pl_preparationTime = prd_preparationTime prd\<rparr>)"

text \<open>
  The page query: \<open>SELECT ... ORDER BY ... OFFSET @offset ROWS FETCH NEXT @pageSize ROWS
  ONLY\<close>. Its \<open>WHERE\<close> clause reads no column of \<open>productImage\<close>, so the rows of
  \<open>product JOIN confectioner\<close> are filtered and then joined with their primary images.
\<close>

definition pageQuery ::
  "(string \<Rightarrow> int list) \<Rightarrow> (string \<Rightarrow> string \<Rightarrow> bool) \<Rightarrow> db \<Rightarrow> int \<Rightarrow> int \<Rightarrow> int \<Rightarrow> string
     \<Rightarrow> string option \<Rightarrow> string option \<Rightarrow> string option \<Rightarrow> numeric6 option
     \<Rightarrow> numeric6 option \<Rightarrow> string option \<Rightarrow> string \<Rightarrow> string option
     \<Rightarrow> ProductList list" where
  "pageQuery csv like d idAccount offset pageSize sortBy categoryIds flavorIds sizeIds
       minPrice maxPrice confectionerIds availability searchTerm =
     map productListRow
       (take (nat pageSize) (drop (nat offset)
         (sort_key (\<lambda>row. orderKey sortBy (fst row))
           (concat (map (leftJoinImage d)
             (filter (\<lambda>row. pageWhere csv like d idAccount categoryIds flavorIds sizeIds
                               minPrice maxPrice confectionerIds availability searchTerm
                               (fst row) (snd row))
                     (joinConfectioner d)))))))"

text \<open>
  The count query. \<open>CEILING(CAST(COUNT(*) AS FLOAT) / @pageSize)\<close> divides a count below
  \<open>2^31\<close> by 12, 24 or 36 in 53-bit floating point; a quotient that is no integer is
  at least \<open>1/36\<close> away from the next integer, far more than the rounding error, so the
  model takes the ceiling of the exact quotient.
\<close>

definition countQuery ::
  "(string \<Rightarrow> int list) \<Rightarrow> (string \<Rightarrow> string \<Rightarrow> bool) \<Rightarrow> db \<Rightarrow> int \<Rightarrow> int \<Rightarrow> int
     \<Rightarrow> string option \<Rightarrow> string option \<Rightarrow> string option \<Rightarrow> numeric6 option
     \<Rightarrow> numeric6 option \<Rightarrow> string option \<Rightarrow> string \<Rightarrow> string option
     \<Rightarrow> Pagination list" where
  "countQuery csv like d idAccount page pageSize categoryIds flavorIds sizeIds
       minPrice maxPrice confectionerIds availability searchTerm =
     (let count = int (length
            (filter (\<lambda>row. countWhere csv like d idAccount categoryIds flavorIds sizeIds
                              minPrice maxPrice confectionerIds availability searchTerm
                              (fst row) (snd row))
                    (joinConfectioner d)))
      in [\<lparr>pag_totalItems = count,
           pag_totalPages = \<lceil>(of_int count :: rat) / of_int pageSize\<rceil>,
           pag_currentPage = page,
           pag_pageSize = pageSize\<rparr>])"

text \<open>
  The procedure. \<open>@page\<close> and \<open>@pageSize\<close> are \<open>INT\<close> parameters, which the service
  always binds to a number; a number outside the \<open>INT\<close> range cannot be bound, and an
  \<open>@offset\<close> outside it is an overflow.
\<close>

definition spProductList ::
  "(string \<Rightarrow> int list) \<Rightarrow> (string \<Rightarrow> string \<Rightarrow> bool) \<Rightarrow> db \<Rightarrow> int option \<Rightarrow> int \<Rightarrow> int
     \<Rightarrow> string \<Rightarrow> string option \<Rightarrow> string option \<Rightarrow> string option \<Rightarrow> numeric6 option
     \<Rightarrow> numeric6 option \<Rightarrow> string option \<Rightarrow> string \<Rightarrow> string option
     \<Rightarrow> error + (ProductList list \<times> Pagination list)" where
  "spProductList csv like d idAccount page pageSize sortBy categoryIds flavorIds sizeIds
       minPrice maxPrice confectionerIds availability searchTerm =
     (if \<not> fitsInt page \<or> \<not> fitsInt pageSize then Inl CannotBindInt
      else case idAccount of
        None \<Rightarrow> Inl (Throw51000 idAccountRequired)
      | Some a \<Rightarrow>
         (let page1 = (if page < 1 then 1 else page);
              pageSize1 = (if pageSize \<notin> {12, 24, 36} then 12 else pageSize);
              availability1 =
                (if availability \<notin> {''disponivel'', ''indisponivel'', ''todos''}
                 then ''disponivel'' else availability);
              offset = (page1 - 1) * pageSize1
          in if \<not> fitsInt offset then Inl ArithmeticOverflow8115
             else Inr (pageQuery csv like d a offset pageSize1 sortBy categoryIds flavorIds
                         sizeIds minPrice maxPrice confectionerIds availability1 searchTerm,
                       countQuery csv like d a page1 pageSize1 categoryIds flavorIds sizeIds
                         minPrice maxPrice confectionerIds availability1 searchTerm)))"

section \<open>spProductRelated (database/functional/product/spProductRelated.sql)\<close>

record RelatedProducts =
  rel_idProduct :: int
  rel_name :: string
  rel_imageUrl :: "string option"
  rel_price :: "numeric6 option"
  rel_originalPrice :: "numeric6 option"
  rel_isPromotion :: bool
  rel_averageRating :: int
  rel_totalReviews :: int
  rel_confectionerName :: string

definition relatedProductsRow ::
  "product_row \<times> confectioner_row \<times> productImage_row option \<Rightarrow> RelatedProducts" where
  "relatedProductsRow row =
     (case row of (prd, cnf, prdImg) \<Rightarrow>
        \<lparr>rel_idProduct = prd_idProduct prd,
         rel_name = prd_name prd,
         rel_imageUrl = map_option prdImg_imageUrl prdImg,
         rel_price = price prd,
         rel_originalPrice = originalPrice prd,
         rel_isPromotion = prd_isPromotion prd,
         rel_averageRating = prd_averageRating prd,
         rel_totalReviews = prd_totalReviews prd,
         rel_confectionerName = cnf_name cnf\<rparr>)"

text \<open>
  One \<open>SELECT TOP (@limit) ... WHERE ... ORDER BY k\<close> of the routine: \<open>same\<close> is the
  condition that tells the three branches apart, \<open>k\<close> the sort key of the branch.
\<close>

definition relatedSelect ::
  "db \<Rightarrow> int \<Rightarrow> int \<Rightarrow> int \<Rightarrow> (product_row \<Rightarrow> bool)
     \<Rightarrow> (product_row \<Rightarrow> (bool \<times> int option) \<times> (bool \<times> int option))
     \<Rightarrow> RelatedProducts list" where
  "relatedSelect d idAccount idProduct limit same k =
     map relatedProductsRow
       (take (nat limit)
         (sort_key (\<lambda>row. k (fst row))
           (concat (map (leftJoinImage d)
             (filter (\<lambda>row. prd_idAccount (fst row) = idAccount
                           \<and> prd_idProduct (fst row) \<noteq> idProduct
                           \<and> same (fst row)
                           \<and> prd_available (fst row)
                           \<and> prd_stock (fst row) > 0
                           \<and> \<not> prd_deleted (fst row)
                           \<and> \<not> cnf_deleted (snd row))
                     (joinConfectioner d))))))"

text \<open>
  The procedure. Its value is the list of the result sets it sends: one \<open>SELECT\<close> runs
  in each of the three branches of the \<open>IF ... ELSE IF ... ELSE IF\<close>, and there is no
  final \<open>ELSE\<close>. \<open>@limit\<close> and \<open>@criteria\<close> are always bound by the service.
\<close>

definition spProductRelated ::
  "db \<Rightarrow> int option \<Rightarrow> int option \<Rightarrow> int \<Rightarrow> string \<Rightarrow> error + RelatedProducts list list" where
  "spProductRelated d idAccount idProduct limit criteria =
     (case idAccount of None \<Rightarrow> Inl (Throw51000 idAccountRequired) | Some a \<Rightarrow>
     (case idProduct of None \<Rightarrow> Inl (Throw51000 idProductRequired) | Some p \<Rightarrow>
       (let limit1 = (if limit < 1 then 4 else limit);
            criteria1 =
              (if criteria \<notin> {''categoria'', ''sabor'', ''confeiteiro'', ''popularidade''}
               then ''categoria'' else criteria)
        in if \<not> productExists d a p then Inl (Throw51000 productDoesntExist)
           else
             let reference = filter (\<lambda>prd. prd_idAccount prd = a \<and> prd_idProduct prd = p)
                                    (tbl_product d);
                 idCategory = selectLast (map prd_idCategory reference);
                 idConfectioner = selectLast (map prd_idConfectioner reference)
             in if criteria1 = ''categoria''
                then Inr [relatedSelect d a p limit1
                            (\<lambda>prd. Some (prd_idCategory prd) = idCategory)
                            (\<lambda>prd. (descending (Some (prd_averageRating prd)),
                                     descending (Some (prd_totalSales prd))))]
                else if criteria1 = ''confeiteiro''
                then Inr [relatedSelect d a p limit1
                            (\<lambda>prd. Some (prd_idConfectioner prd) = idConfectioner)
                            (\<lambda>prd. (descending (Some (prd_averageRating prd)),
                                     descending (Some (prd_totalSales prd))))]
                else if criteria1 = ''popularidade''
                then Inr [relatedSelect d a p limit1
                            (\<lambda>prd. True)
                            (\<lambda>prd. (descending (Some (prd_totalSales prd)),
                                     descending (Some (prd_averageRating prd))))]
                else Inr [])))"

section \<open>spProductGet (the routine in src/backend/src/routes/v1/index.ts)\<close>

text \<open>
  The result sets \<open>ProductDetails\<close>, \<open>AvailableFlavors\<close> and \<open>AvailableSizes\<close>. The
  image, review and confectioner result sets are not modelled, and neither is the order
  of the flavor rows by name, which is the order of the collation.
\<close>

record ProductGet =
  get_product :: "product_row list"
  get_flavors :: "(int \<times> string \<times> string) list"
  get_sizes :: "(int \<times> string \<times> string \<times> int \<times> numeric6) list"

definition availableFlavors :: "db \<Rightarrow> int \<Rightarrow> int \<Rightarrow> (int \<times> string \<times> string) list" where
  "availableFlavors d idAccount idProduct =
     concat (map (\<lambda>flv.
       map (\<lambda>prdFlv. (flv_idFlavor flv, flv_name flv, flv_description flv))
         (filter (\<lambda>prdFlv. prdFlv_idAccount prdFlv = flv_idAccount flv
                          \<and> prdFlv_idFlavor prdFlv = flv_idFlavor flv
                          \<and> flv_idAccount flv = idAccount
                          \<and> prdFlv_idProduct prdFlv = idProduct
                          \<and> prdFlv_available prdFlv
                          \<and> \<not> flv_deleted flv) (tbl_productFlavor d))) (tbl_flavor d))"

definition availableSizes ::
  "db \<Rightarrow> int \<Rightarrow> int \<Rightarrow> (int \<times> string \<times> string \<times> int \<times> numeric6) list" where
  "availableSizes d idAccount idProduct =
     map (\<lambda>siz. (siz_idSize siz, siz_name siz, siz_description siz, siz_servings siz,
                 siz_priceModifier siz))
       (sort_key siz_servings
         (concat (map (\<lambda>siz.
            map (\<lambda>prdSiz. siz)
              (filter (\<lambda>prdSiz. prdSiz_idAccount prdSiz = siz_idAccount siz
                               \<and> prdSiz_idSize prdSiz = siz_idSize siz
                               \<and> siz_idAccount siz = idAccount
                               \<and> prdSiz_idProduct prdSiz = idProduct
                               \<and> prdSiz_available prdSiz
                               \<and> \<not> siz_deleted siz) (tbl_productSize d))) (tbl_size d))))"

definition spProductGet :: "db \<Rightarrow> int option \<Rightarrow> int option \<Rightarrow> error + ProductGet" where
  "spProductGet d idAccount idProduct =
     (case idAccount of None \<Rightarrow> Inl (Throw51000 idAccountRequired) | Some a \<Rightarrow>
     (case idProduct of None \<Rightarrow> Inl (Throw51000 idProductRequired) | Some p \<Rightarrow>
       (if \<not> productExists d a p then Inl (Throw51000 productDoesntExist)
        else Inr \<lparr>get_product =
                    filter (\<lambda>prd. prd_idAccount prd = a \<and> prd_idProduct prd = p
                                 \<and> \<not> prd_deleted prd) (tbl_product d),
                  get_flavors = availableFlavors d a p,
                  get_sizes = availableSizes d a p\<rparr>)))"

section \<open>Request validation and handlers (api/v1/external/product/controller.ts)\<close>

text \<open>
  A field of the request (\<open>{...req.params, ...req.query, ...req.body}\<close>) that a schema
  reads as text is \<open>Undefined\<close> when absent, \<open>Null\<close>, a string, or \<open>Other\<close> (an array
  or an object). A field read with \<open>z.coerce.number()\<close> is given as \<open>None\<close> when
  absent and else as the value of \<open>Number(x)\<close>: \<open>NaN\<close> or a number (the infinite ones
  are not modelled).
\<close>

datatype raw = Undefined | Null | Str string | Other

datatype number = NaN | Num rat

definition isInteger :: "rat \<Rightarrow> bool" where
  "isInteger r \<longleftrightarrow> of_int \<lfloor>r\<rfloor> = r"

text \<open>\<open>z.coerce.number().int().positive().optional().default(dflt)\<close>; \<open>zFK\<close> without default.\<close>

definition zPositiveInt :: "number \<Rightarrow> int option" where
  "zPositiveInt v =
     (case v of NaN \<Rightarrow> None
      | Num r \<Rightarrow> if isInteger r \<and> r > 0 then Some \<lfloor>r\<rfloor> else None)"

definition zFK :: "number option \<Rightarrow> int option" where
  "zFK v = (case v of None \<Rightarrow> None | Some x \<Rightarrow> zPositiveInt x)"

definition zPositiveIntDefault :: "int \<Rightarrow> number option \<Rightarrow> int option" where
  "zPositiveIntDefault dflt v = (case v of None \<Rightarrow> Some dflt | Some x \<Rightarrow> zPositiveInt x)"

text \<open>
  \<open>pageSize: z.coerce.number().int().refine((val) => [12, 24, 36].includes(val))
  .optional().default(12)\<close>.
\<close>

definition zPageSize :: "number option \<Rightarrow> int option" where
  "zPageSize v =
     (case v of None \<Rightarrow> Some 12
      | Some NaN \<Rightarrow> None
      | Some (Num r) \<Rightarrow>
          if isInteger r \<and> \<lfloor>r\<rfloor> \<in> set [12, 24, 36] then Some \<lfloor>r\<rfloor> else None)"

text \<open>\<open>z.enum(values).optional().default(dflt)\<close>.\<close>

definition zEnumDefault :: "string list \<Rightarrow> string \<Rightarrow> raw \<Rightarrow> string option" where
  "zEnumDefault vals dflt v =
     (case v of Undefined \<Rightarrow> Some dflt
      | Str t \<Rightarrow> if t \<in> set vals then Some t else None
      | _ \<Rightarrow> None)"

text \<open>
  \<open>zNullableString(maxLength)\<close> is \<open>z.string().nullable()\<close>, with \<open>.max(maxLength)\<close>
  when \<open>maxLength\<close> is given and is not 0 (\<open>if (maxLength)\<close>): \<open>null\<close> and a string
  pass, an absent field does not.
\<close>

definition zNullableString :: "nat option \<Rightarrow> raw \<Rightarrow> string option option" where
  "zNullableString maxLength v =
     (case v of Null \<Rightarrow> Some None
      | Str t \<Rightarrow>
          (case maxLength of
             None \<Rightarrow> Some (Some t)
           | Some m \<Rightarrow> if m = 0 \<or> length t \<le> m then Some (Some t) else None)
      | _ \<Rightarrow> None)"

text \<open>\<open>z.string().max(maxLength).optional()\<close>.\<close>

definition zOptionalString :: "nat \<Rightarrow> raw \<Rightarrow> string option option" where
  "zOptionalString maxLength v =
     (case v of Undefined \<Rightarrow> Some None
      | Str t \<Rightarrow> if length t \<le> maxLength then Some (Some t) else None
      | _ \<Rightarrow> None)"

text \<open>\<open>z.coerce.number().nonnegative().optional()\<close>.\<close>

definition zOptionalPrice :: "number option \<Rightarrow> rat option option" where
  "zOptionalPrice v =
     (case v of None \<Rightarrow> Some None
      | Some NaN \<Rightarrow> None
      | Some (Num r) \<Rightarrow> if r \<ge> 0 then Some (Some r) else None)"

record listRequest =
  req_page :: "number option"
  req_pageSize :: "number option"
  req_sortBy :: raw
  req_categoryIds :: raw
  req_flavorIds :: raw
  req_sizeIds :: raw
  req_minPrice :: "number option"
  req_maxPrice :: "number option"
  req_confectionerIds :: raw
  req_availability :: raw
  req_searchTerm :: raw

record listParams =
  par_page :: int
  par_pageSize :: int
  par_sortBy :: string
  par_categoryIds :: "string option"
  par_flavorIds :: "string option"
  par_sizeIds :: "string option"
  par_minPrice :: "rat option"
  par_maxPrice :: "rat option"
  par_confectionerIds :: "string option"
  par_availability :: string
  par_searchTerm :: "string option"

text \<open>\<open>querySchema\<close> of \<open>listHandler\<close>: \<open>None\<close> when a field has an issue.\<close>

definition querySchema :: "listRequest \<Rightarrow> listParams option" where
  "querySchema req =
     (case zPositiveIntDefault 1 (req_page req) of None \<Rightarrow> None | Some page \<Rightarrow>
     (case zPageSize (req_pageSize req) of None \<Rightarrow> None | Some pageSize \<Rightarrow>
     (case zEnumDefault [''relevancia'', ''preco_menor'', ''preco_maior'', ''mais_vendidos'',
                         ''melhor_avaliados'', ''mais_recentes''] ''relevancia''
             (req_sortBy req) of None \<Rightarrow> None | Some sortBy \<Rightarrow>
     (case zNullableString (Some 500) (req_categoryIds req) of None \<Rightarrow> None | Some categoryIds \<Rightarrow>
     (case zNullableString (Some 500) (req_flavorIds req) of None \<Rightarrow> None | Some flavorIds \<Rightarrow>
     (case zNullableString (Some 500) (req_sizeIds req) of None \<Rightarrow> None | Some sizeIds \<Rightarrow>
     (case zOptionalPrice (req_minPrice req) of None \<Rightarrow> None | Some minPrice \<Rightarrow>
     (case zOptionalPrice (req_maxPrice req) of None \<Rightarrow> None | Some maxPrice \<Rightarrow>
     (case zNullableString (Some 500) (req_confectionerIds req) of None \<Rightarrow> None
      | Some confectionerIds \<Rightarrow>
     (case zEnumDefault [''disponivel'', ''indisponivel'', ''todos''] ''disponivel''
             (req_availability req) of None \<Rightarrow> None | Some availability \<Rightarrow>
     (case zOptionalString 100 (req_searchTerm req) of None \<Rightarrow> None | Some searchTerm \<Rightarrow>
       Some \<lparr>par_page = page, par_pageSize = pageSize, par_sortBy = sortBy,
             par_categoryIds = categoryIds, par_flavorIds = flavorIds,
             par_sizeIds = sizeIds, par_minPrice = minPrice, par_maxPrice = maxPrice,
             par_confectionerIds = confectionerIds, par_availability = availability,
             par_searchTerm = searchTerm\<rparr>)))))))))))"

text \<open>
  What a handler does with the request: \<open>return next(error)\<close> with the error of the
  schema, \<open>res.json(successResponse(data))\<close>, \<open>res.status(400).json(errorResponse(
  error.message))\<close> for error number 51000, and \<open>next(StatusGeneralError)\<close> otherwise.
\<close>

datatype 'a reply = ValidationError | Success 'a | BadRequest message | GeneralError

definition handle :: "error + 'a \<Rightarrow> 'a reply" where
  "handle r = (case r of Inr data \<Rightarrow> Success data
               | Inl (Throw51000 m) \<Rightarrow> BadRequest m
               | Inl _ \<Rightarrow> GeneralError)"

text \<open>
  \<open>productList\<close> of services/product/productRules.ts: the call of the routine with the
  account of the credential (always 1) and \<open>pagination: result.pagination[0]\<close>. A price
  bound reaches the \<open>NUMERIC(18, 6)\<close> parameter rounded to six decimals.
\<close>

definition productList ::
  "(string \<Rightarrow> int list) \<Rightarrow> (string \<Rightarrow> string \<Rightarrow> bool) \<Rightarrow> db \<Rightarrow> int \<Rightarrow> listParams
     \<Rightarrow> error + (ProductList list \<times> Pagination option)" where
  "productList csv like d idAccount params =
     (case spProductList csv like d (Some idAccount) (par_page params) (par_pageSize params)
             (par_sortBy params) (par_categoryIds params) (par_flavorIds params)
             (par_sizeIds params)
             (map_option (\<lambda>r. round (r * 1000000)) (par_minPrice params))
             (map_option (\<lambda>r. round (r * 1000000)) (par_maxPrice params))
             (par_confectionerIds params) (par_availability params)
             (par_searchTerm params) of
        Inl e \<Rightarrow> Inl e
      | Inr (products, pagination) \<Rightarrow>
          Inr (products, (case pagination of [] \<Rightarrow> None | x # _ \<Rightarrow> Some x)))"

definition listHandler ::
  "(string \<Rightarrow> int list) \<Rightarrow> (string \<Rightarrow> string \<Rightarrow> bool) \<Rightarrow> db \<Rightarrow> listRequest
     \<Rightarrow> (ProductList list \<times> Pagination option) reply" where
  "listHandler csv like d req =
     (case querySchema req of
        None \<Rightarrow> ValidationError
      | Some params \<Rightarrow> handle (productList csv like d 1 params))"

record relatedRequest =
  req_id :: "number option"
  req_limit :: "number option"
  req_criteria :: raw

text \<open>\<open>paramsSchema\<close> of \<open>relatedHandler\<close>.\<close>

definition paramsSchema :: "relatedRequest \<Rightarrow> (int \<times> int \<times> string) option" where
  "paramsSchema req =
     (case zFK (req_id req) of None \<Rightarrow> None | Some idProduct \<Rightarrow>
     (case zPositiveIntDefault 4 (req_limit req) of None \<Rightarrow> None | Some limit \<Rightarrow>
     (case zEnumDefault [''categoria'', ''sabor'', ''confeiteiro'', ''popularidade'']
             ''categoria'' (req_criteria req) of None \<Rightarrow> None
      | Some criteria \<Rightarrow> Some (idProduct, limit, criteria))))"

text \<open>
  \<open>productRelated\<close> binds its numbers to the \<open>INT\<close> parameters of the routine, which
  fails for a number outside the \<open>INT\<close> range, and returns \<open>result[0]\<close>, which is
  \<open>undefined\<close> without a result set.
\<close>

definition productRelated ::
  "db \<Rightarrow> int \<Rightarrow> int \<Rightarrow> int \<Rightarrow> string \<Rightarrow> error + RelatedProducts list option" where
  "productRelated d idAccount idProduct limit criteria =
     (if fitsInt idAccount \<and> fitsInt idProduct \<and> fitsInt limit
      then (case spProductRelated d (Some idAccount) (Some idProduct) limit criteria of
              Inl e \<Rightarrow> Inl e
            | Inr sets \<Rightarrow> Inr (case sets of [] \<Rightarrow> None | x # _ \<Rightarrow> Some x))
      else Inl CannotBindInt)"

definition relatedHandler :: "db \<Rightarrow> relatedRequest \<Rightarrow> RelatedProducts list option reply" where
  "relatedHandler d req =
     (case paramsSchema req of
        None \<Rightarrow> ValidationError
      | Some (idProduct, limit, criteria) \<Rightarrow>
          handle (productRelated d 1 idProduct limit criteria))"

section \<open>Statements about the state\<close>

text \<open>
  The rows of \<open>cartItem\<close> that belong to a (session, product, flavor, size) tuple: those
  of the product, flavor and size whose cart is a cart of the session.
\<close>

definition cartItemsOf :: "db \<Rightarrow> int \<Rightarrow> string \<Rightarrow> int \<Rightarrow> int \<Rightarrow> int \<Rightarrow> cartItem_row list" where
  "cartItemsOf d idAccount sessionId idProduct idFlavor idSize =
     filter (\<lambda>crtItm. crtItm_idAccount crtItm = idAccount
                     \<and> crtItm_idProduct crtItm = idProduct
                     \<and> crtItm_idFlavor crtItm = idFlavor
                     \<and> crtItm_idSize crtItm = idSize
                     \<and> list_ex (\<lambda>crt. crt_idCart crt = crtItm_idCart crtItm
                                      \<and> crt_idAccount crt = idAccount
                                      \<and> crt_sessionId crt = sessionId) (tbl_cart d))
            (tbl_cartItem d)"

text \<open>
  What the keys of the schema give: an identity column stays below the next identity
  value, and \<open>fkCartItem_Cart\<close> makes every \<open>cartItem.idCart\<close> the key of a cart.
\<close>

definition keysValid :: "db \<Rightarrow> bool" where
  "keysValid d \<longleftrightarrow>
     list_all (\<lambda>crt. crt_idCart crt < identCart d) (tbl_cart d)
     \<and> list_all (\<lambda>crtItm. crtItm_idCartItem crtItm < identCartItem d
                         \<and> crtItm_idCart crtItm < identCart d) (tbl_cartItem d)"

text \<open>
  The price select of \<open>spCartItemAdd\<close> gives the unit price \<open>u\<close>: it has a row, and
  every row is \<open>u\<close>.
\<close>

definition pricedAt :: "db \<Rightarrow> int \<Rightarrow> int \<Rightarrow> int \<Rightarrow> numeric6 \<Rightarrow> bool" where
  "pricedAt d idAccount idProduct idSize u \<longleftrightarrow>
     unitPriceRows d idAccount idProduct idSize \<noteq> []
     \<and> list_all (\<lambda>v. v = Some u) (unitPriceRows d idAccount idProduct idSize)"

text \<open>
  The price arithmetic of \<open>spCartItemAdd\<close> for a quantity \<open>q\<close> stays within
  \<open>NUMERIC(18, 6)\<close>: no row of the price select overflows, and neither does the unit
  price times \<open>q\<close>.
\<close>

definition priceFits :: "db \<Rightarrow> int \<Rightarrow> int \<Rightarrow> int \<Rightarrow> int \<Rightarrow> bool" where
  "priceFits d idAccount idProduct idSize q \<longleftrightarrow>
     list_all (\<lambda>v. case v of None \<Rightarrow> True | Some x \<Rightarrow> fitsNumeric18_6 x)
       (unitPriceRows d idAccount idProduct idSize)
     \<and> (case selectUnitPrice d idAccount idProduct idSize of
          None \<Rightarrow> True | Some u \<Rightarrow> fitsNumeric18_6 (u * q))"

text \<open>Every cart item row has the total price of its unit price and its quantity.\<close>

definition totalsConsistent :: "db \<Rightarrow> bool" where
  "totalsConsistent d \<longleftrightarrow>
     list_all (\<lambda>crtItm. crtItm_totalPrice crtItm = crtItm_unitPrice crtItm * crtItm_quantity crtItm)
       (tbl_cartItem d)"

text \<open>
  The database with the soft-deletion flag of every flavor set to \<open>g\<close> of the row and
  that of every size to \<open>h\<close> of the row.
\<close>

definition withDeletedFlags ::
  "(flavor_row \<Rightarrow> bool) \<Rightarrow> (size_row \<Rightarrow> bool) \<Rightarrow> db \<Rightarrow> db" where
  "withDeletedFlags g h d =
     d\<lparr>tbl_flavor := map (\<lambda>flv. flv\<lparr>flv_deleted := g flv\<rparr>) (tbl_flavor d),
       tbl_size := map (\<lambda>siz. siz\<lparr>siz_deleted := h siz\<rparr>) (tbl_size d)\<rparr>"

section \<open>Example data\<close>

definition cake :: product_row where
  "cake = \<lparr>prd_idProduct = 1, prd_idAccount = 1, prd_idCategory = 1, prd_idConfectioner = 1,
     prd_name = ''Bolo de cenoura'', prd_description = ''Bolo caseiro'',
     prd_ingredients = ''cenoura, farinha, ovos'',
     prd_basePrice = 20000000, prd_promotionalPrice = None, prd_isPromotion = False,
     prd_available = True, prd_stock = 5, prd_preparationTime = ''2 dias'',
     prd_averageRating = 45, prd_totalReviews = 2, prd_totalSales = 10,
     prd_dateCreated = 0, prd_deleted = False\<rparr>"

definition medium :: size_row where
  "medium = \<lparr>siz_idSize = 1, siz_idAccount = 1, siz_name = ''Medio'',
     siz_description = [], siz_servings = 10, siz_priceModifier = 5000000,
     siz_deleted = False\<rparr>"

definition carrot :: flavor_row where
  "carrot = \<lparr>flv_idFlavor = 1, flv_idAccount = 1, flv_name = ''Cenoura'',
     flv_description = [], flv_deleted = False\<rparr>"

definition shop :: db where
  "shop = \<lparr>tbl_product = [cake],
     tbl_flavor = [carrot],
     tbl_size = [medium],
     tbl_confectioner = [\<lparr>cnf_idConfectioner = 1, cnf_idAccount = 1, cnf_name = ''Ana'',
                          cnf_deleted = False\<rparr>],
     tbl_productImage = [],
     tbl_productFlavor = [\<lparr>prdFlv_idAccount = 1, prdFlv_idProduct = 1, prdFlv_idFlavor = 1,
                           prdFlv_available = True\<rparr>],
     tbl_productSize = [\<lparr>prdSiz_idAccount = 1, prdSiz_idProduct = 1, prdSiz_idSize = 1,
                         prdSiz_available = True\<rparr>],
     tbl_cart = [], tbl_cartItem = [], identCart = 1, identCartItem = 1\<rparr>"

text \<open>The shop with three of the cake in the cart of session \<open>s1\<close>, added at time 100.\<close>

definition shopWithThree :: db where
  "shopWithThree =
     snd (spCartItemAdd 100 shop (Some 1) (Some ''s1'') (Some 1) (Some 1) (Some 1) (Some 3) None)"

text \<open>The same, with eight of the cake.\<close>

definition shopWithEight :: db where
  "shopWithEight =
     snd (spCartItemAdd 100 shop (Some 1) (Some ''s1'') (Some 1) (Some 1) (Some 1) (Some 8)
            (Some ''sem acucar''))"

text \<open>A request for the first page of the catalog with no filter.\<close>

definition plainRequest :: listRequest where
  "plainRequest = \<lparr>req_page = None, req_pageSize = None, req_sortBy = Undefined,
     req_categoryIds = Null, req_flavorIds = Null, req_sizeIds = Null,
     req_minPrice = None, req_maxPrice = None, req_confectionerIds = Null,
     req_availability = Undefined, req_searchTerm = Undefined\<rparr>"

text \<open>The shop when the stock of the cake has gone below zero.\<close>

definition shopNegativeStock :: db where
  "shopNegativeStock = shop\<lparr>tbl_product := [cake\<lparr>prd_stock := - 1\<rparr>]\<rparr>"

text \<open>
  The shop with three of the cake in the cart, after the base price of the cake went
  from 20.00 to 30.00.
\<close>

definition shopRepriced :: db where
  "shopRepriced = shopWithThree\<lparr>tbl_product := [cake\<lparr>prd_basePrice := 30000000\<rparr>]\<rparr>"

text \<open>
  The shop after its flavor and its size were soft-deleted; their associations with the
  cake stay available.
\<close>

definition shopDeleted :: db where
  "shopDeleted = shop\<lparr>tbl_flavor := [carrot\<lparr>flv_deleted := True\<rparr>],
                      tbl_size := [medium\<lparr>siz_deleted := True\<rparr>]\<rparr>"

text \<open>The shop with eight of the cake in the cart, after the cake sold out.\<close>

definition shopSoldOut :: db where
  "shopSoldOut = shopWithEight\<lparr>tbl_product := [cake\<lparr>prd_stock := 0\<rparr>]\<rparr>"

section \<open>Related products: the criterion \<open>sabor\<close>\<close>

text \<open>
  Claim C8. For a related-products request with criteria \<open>sabor\<close> whose reference
  product exists, the routine runs none of its three selects: it sends no result set,
  hence no row. The schema of the handler accepts \<open>sabor\<close>, and the handler answers
  such a request with success and no data (when its numbers are in the \<open>INT\<close> range,
  so that they can be bound to the parameters of the routine).
\<close>

theorem related_sabor_no_result_set:
  "(productExists d a p \<longrightarrow>
      spProductRelated d (Some a) (Some p) limit ''sabor'' = Inr [])
   \<and> zEnumDefault [''categoria'', ''sabor'', ''confeiteiro'', ''popularidade'']
        ''categoria'' (Str ''sabor'') = Some ''sabor''
   \<and> (productExists d 1 p \<and> paramsSchema req = Some (p, limit, ''sabor'')
        \<and> fitsInt p \<and> fitsInt limit \<longrightarrow>
        relatedHandler d req = Success None)"
  by (simp add: spProductRelated_def zEnumDefault_def relatedHandler_def productRelated_def
        handle_def Let_def fitsInt_def)

theorem related_sabor_no_result_set_witness:
  "productExists shop 1 1
   \<and> spProductRelated shop (Some 1) (Some 1) 4 ''sabor'' = Inr []
   \<and> paramsSchema \<lparr>req_id = Some (Num 1), req_limit = None, req_criteria = Str ''sabor''\<rparr>
       = Some (1, 4, ''sabor'')
   \<and> fitsInt 1 \<and> fitsInt 4
   \<and> relatedHandler shop
        \<lparr>req_id = Some (Num 1), req_limit = None, req_criteria = Str ''sabor''\<rparr>
       = Success None"
  using related_sabor_no_result_set [of shop 1 1 4
          "\<lparr>req_id = Some (Num 1), req_limit = None, req_criteria = Str ''sabor''\<rparr>"]
  by (simp add: productExists_def shop_def cake_def paramsSchema_def zFK_def
        zPositiveInt_def zPositiveIntDefault_def isInteger_def zEnumDefault_def fitsInt_def)

text \<open>Each of the other three criteria sends exactly one result set.\<close>

lemma related_other_criteria_one_set:
  assumes "productExists d a p"
    and "criteria \<in> {''categoria'', ''confeiteiro'', ''popularidade''}"
  shows "\<exists>rows. spProductRelated d (Some a) (Some p) limit criteria = Inr [rows]"
  using assms by (auto simp: spProductRelated_def Let_def)

section \<open>Product listing\<close>





text \<open>
  Claim C5, on the code. The filter \<open>disponivel\<close> keeps a product only if it is
  available with a stock above zero; the filter \<open>indisponivel\<close> keeps it only if it is
  not available or its stock is exactly zero.
\<close>

lemma availability_filter:
  assumes "pageWhere csv like d a c f s mn mx cf av st prd cnf"
  shows "av = ''disponivel'' \<longrightarrow> prd_available prd \<and> prd_stock prd > 0"
    and "av = ''indisponivel'' \<longrightarrow> \<not> prd_available prd \<or> prd_stock prd = 0"
  using assms by (auto simp: pageWhere_def)

text \<open>
  Claim C5 at a stock of \<open>- 1\<close>: the cake is available with a stock that is not above
  zero, yet the filter \<open>indisponivel\<close> does not return it (and neither does
  \<open>disponivel\<close>); only \<open>todos\<close> does.
\<close>

theorem unavailable_filter_misses_negative_stock:
  "prd_available (cake\<lparr>prd_stock := - 1\<rparr>) \<and> prd_stock (cake\<lparr>prd_stock := - 1\<rparr>) \<le> 0
   \<and> spProductList (\<lambda>t. []) (\<lambda>x p. False) shopNegativeStock (Some 1) 1 12 ''relevancia''
        None None None None None None ''indisponivel'' None
      = Inr ([], [\<lparr>pag_totalItems = 0, pag_totalPages = 0, pag_currentPage = 1,
                   pag_pageSize = 12\<rparr>])
   \<and> spProductList (\<lambda>t. []) (\<lambda>x p. False) shopNegativeStock (Some 1) 1 12 ''relevancia''
        None None None None None None ''disponivel'' None
      = Inr ([], [\<lparr>pag_totalItems = 0, pag_totalPages = 0, pag_currentPage = 1,
                   pag_pageSize = 12\<rparr>])
   \<and> map pl_idProduct (fst (projr
        (spProductList (\<lambda>t. []) (\<lambda>x p. False) shopNegativeStock (Some 1) 1 12
           ''relevancia'' None None None None None None ''todos'' None))) = [1]"
  by code_simp

theorem unavailable_filter_misses_negative_stock_witness:
  "spProductList (\<lambda>t. []) (\<lambda>x p. False) shopNegativeStock (Some 1) 1 12 ''relevancia''
        None None None None None None ''indisponivel'' None
      = Inr ([], [\<lparr>pag_totalItems = 0, pag_totalPages = 0, pag_currentPage = 1,
                   pag_pageSize = 12\<rparr>])"
  using unavailable_filter_misses_negative_stock by blast

text \<open>
  Claim C4 as stated fails: a request that is valid but for \<open>pageSize=10\<close> does not get
  a page of 12, the schema of the handler rejects it.
\<close>

theorem pageSize_10_rejected:
  "listHandler (\<lambda>t. []) (\<lambda>x p. False) shop (plainRequest\<lparr>req_pageSize := Some (Num 10)\<rparr>)
     = ValidationError
   \<and> listHandler (\<lambda>t. []) (\<lambda>x p. False) shop plainRequest
     = Success ([\<lparr>pl_idProduct = 1, pl_name = ''Bolo de cenoura'', pl_imageUrl = None,
                  pl_price = Some 20000000, pl_originalPrice = None,
                  pl_isPromotion = False, pl_averageRating = 45, pl_totalReviews = 2,
                  pl_confectionerName = ''Ana'', pl_available = True,
                  pl_preparationTime = ''2 dias''\<rparr>],
                Some \<lparr>pag_totalItems = 1, pag_totalPages = 1, pag_currentPage = 1,
                      pag_pageSize = 12\<rparr>)"
  by code_simp

lemma zPageSize_None: "v \<notin> {Num 12, Num 24, Num 36} \<Longrightarrow> zPageSize (Some v) = None"
  by (cases v) (auto simp: zPageSize_def isInteger_def)

text \<open>
  Claim C4, amended. A request whose \<open>pageSize\<close> is given and is not 12, 24 or 36 is
  rejected by the schema, so the routine is not called; a request without \<open>pageSize\<close>
  is validated with 12; and the routine itself, called with an \<open>INT\<close> outside
  \<open>{12, 24, 36}\<close>, does what it does with 12.
\<close>

theorem pageSize_outside_set:
  "(req_pageSize req = Some v \<and> v \<notin> {Num 12, Num 24, Num 36} \<longrightarrow>
      listHandler csv like d req = ValidationError)
   \<and> (req_pageSize req' = None \<and> querySchema req' = Some params \<longrightarrow>
        par_pageSize params = 12)
   \<and> (fitsInt pageSize \<and> pageSize \<notin> {12, 24, 36} \<longrightarrow>
        spProductList csv like d a page pageSize sortBy c f s mn mx cf av st
          = spProductList csv like d a page 12 sortBy c f s mn mx cf av st)"
proof (intro conjI impI)
  assume "req_pageSize req = Some v \<and> v \<notin> {Num 12, Num 24, Num 36}"
  then have "querySchema req = None"
    by (simp add: querySchema_def zPageSize_None split: option.splits)
  then show "listHandler csv like d req = ValidationError"
    by (simp add: listHandler_def)
next
  assume "req_pageSize req' = None \<and> querySchema req' = Some params"
  then show "par_pageSize params = 12"
    by (auto simp add: querySchema_def zPageSize_def split: option.splits)
next
  assume "fitsInt pageSize \<and> pageSize \<notin> {12, 24, 36}"
  then show "spProductList csv like d a page pageSize sortBy c f s mn mx cf av st
               = spProductList csv like d a page 12 sortBy c f s mn mx cf av st"
    by (simp add: spProductList_def fitsInt_def Let_def)
qed

theorem pageSize_outside_set_witness:
  "req_pageSize (plainRequest\<lparr>req_pageSize := Some (Num 10)\<rparr>) = Some (Num 10)
   \<and> Num 10 \<notin> {Num 12, Num 24, Num 36}
   \<and> listHandler (\<lambda>t. []) (\<lambda>x p. False) shop (plainRequest\<lparr>req_pageSize := Some (Num 10)\<rparr>)
       = ValidationError
   \<and> req_pageSize plainRequest = None
   \<and> querySchema plainRequest
       = Some \<lparr>par_page = 1, par_pageSize = 12, par_sortBy = ''relevancia'',
               par_categoryIds = None, par_flavorIds = None, par_sizeIds = None,
               par_minPrice = None, par_maxPrice = None, par_confectionerIds = None,
               par_availability = ''disponivel'', par_searchTerm = None\<rparr>
   \<and> par_pageSize \<lparr>par_page = 1, par_pageSize = 12, par_sortBy = ''relevancia'',
               par_categoryIds = None, par_flavorIds = None, par_sizeIds = None,
               par_minPrice = None, par_maxPrice = None, par_confectionerIds = None,
               par_availability = ''disponivel'', par_searchTerm = None\<rparr> = 12
   \<and> fitsInt 10 \<and> (10::int) \<notin> {12, 24, 36}
   \<and> spProductList (\<lambda>t. []) (\<lambda>x p. False) shop (Some 1) 1 10 ''relevancia''
         None None None None None None ''disponivel'' None
       = spProductList (\<lambda>t. []) (\<lambda>x p. False) shop (Some 1) 1 12 ''relevancia''
         None None None None None None ''disponivel'' None"
  using pageSize_outside_set
          [of "plainRequest\<lparr>req_pageSize := Some (Num 10)\<rparr>" "Num 10"
              "\<lambda>t. []" "\<lambda>x p. False" shop plainRequest
              "\<lparr>par_page = 1, par_pageSize = 12, par_sortBy = ''relevancia'',
               par_categoryIds = None, par_flavorIds = None, par_sizeIds = None,
               par_minPrice = None, par_maxPrice = None, par_confectionerIds = None,
               par_availability = ''disponivel'', par_searchTerm = None\<rparr>"
              10 "Some 1" 1 "''relevancia''" None None None None None None
              "''disponivel''" None]
  by (simp add: plainRequest_def querySchema_def zPositiveIntDefault_def zPageSize_def
        zEnumDefault_def zNullableString_def zOptionalPrice_def zOptionalString_def
        fitsInt_def)

section \<open>Cart item add\<close>

lemma productAvailable_exists: "productAvailable d a p \<Longrightarrow> productExists d a p"
  by (auto simp: productAvailable_def productExists_def list_ex_iff)

lemma ensureCart_found:
  "selectCart d a s = Some c \<Longrightarrow> ensureCart now d a s = (c, d)"
  by (simp add: ensureCart_def)

lemma ensureCart_frame:
  assumes "ensureCart now d a s = (c, d1)"
  shows "tbl_product d1 = tbl_product d" "tbl_size d1 = tbl_size d"
    "tbl_flavor d1 = tbl_flavor d" "tbl_productFlavor d1 = tbl_productFlavor d"
    "tbl_productSize d1 = tbl_productSize d" "tbl_cartItem d1 = tbl_cartItem d"
    "identCartItem d1 = identCartItem d"
    "tbl_confectioner d1 = tbl_confectioner d" "tbl_productImage d1 = tbl_productImage d"
  using assms by (auto simp: ensureCart_def split: option.splits)


lemma unitPriceRows_cong:
  "tbl_product d1 = tbl_product d \<Longrightarrow> tbl_size d1 = tbl_size d \<Longrightarrow>
   unitPriceRows d1 a p z = unitPriceRows d a p z"
  by (simp add: unitPriceRows_def)

lemma pricedAt_select:
  assumes "pricedAt d a p z u"
  shows "selectUnitPrice d a p z = Some u" and "list_ex overflows (unitPriceRows d a p z) \<longleftrightarrow> \<not> fitsNumeric18_6 u"
proof -
  from assms have ne: "unitPriceRows d a p z \<noteq> []" and all: "\<forall>v \<in> set (unitPriceRows d a p z). v = Some u"
    by (auto simp: pricedAt_def list_all_iff)
  from ne have "last (unitPriceRows d a p z) \<in> set (unitPriceRows d a p z)" by simp
  with all have "last (unitPriceRows d a p z) = Some u" by blast
  with ne show "selectUnitPrice d a p z = Some u"
    by (simp add: selectUnitPrice_def selectLast_def)
  from ne obtain v where v: "v \<in> set (unitPriceRows d a p z)" by (cases "unitPriceRows d a p z") auto
  with all have "Some u \<in> set (unitPriceRows d a p z)" by auto
  with all show "list_ex overflows (unitPriceRows d a p z) \<longleftrightarrow> \<not> fitsNumeric18_6 u"
    unfolding list_ex_iff overflows_def by (metis option.simps(5))
qed

lemma fits_factor:
  assumes "fitsNumeric18_6 (u * q)" "1 \<le> q"
  shows "fitsNumeric18_6 u"
proof -
  have "\<bar>u\<bar> \<le> \<bar>u\<bar> * \<bar>q\<bar>" using assms(2) by (simp add: mult_le_cancel_left1)
  then have "\<bar>u\<bar> \<le> \<bar>u * q\<bar>" by (simp add: abs_mult)
  with assms(1) show ?thesis by (auto simp: fitsNumeric18_6_def)
qed

lemma tran_ok:
  assumes "productAvailable d a p" "flavorAvailable d a p f" "sizeAvailable d a p z"
    and "pricedAt d a p z u" "fitsNumeric18_6 (u * q)" "1 \<le> q"
    and ec: "ensureCart now d a s = (c, d1)"
  shows "cartItemAddTran now d a s p f z q obs =
    (case selectLast (cartItemRows d1 a c p f z) of
       Some crtItm \<Rightarrow>
         if \<not> fitsInt (crtItm_quantity crtItm + q) then (Inl ArithmeticOverflow8115, d1)
         else if crtItm_quantity crtItm + q > 10 then (Inl (Throw51000 quantityExceedsMaximum), d1)
         else if \<not> fitsNumeric18_6 (u * (crtItm_quantity crtItm + q)) then (Inl ArithmeticOverflow8115, d1)
         else (Inr (crtItm_idCartItem crtItm),
               d1\<lparr>tbl_cartItem := map (updateCartItem now (crtItm_idCartItem crtItm)
                      (crtItm_quantity crtItm + q) (u * (crtItm_quantity crtItm + q)) obs) (tbl_cartItem d1)\<rparr>)
     | None \<Rightarrow>
         (Inr (identCartItem d1),
          d1\<lparr>tbl_cartItem := tbl_cartItem d1 @
                           [\<lparr>crtItm_idCartItem = identCartItem d1,
                             crtItm_idAccount = a,
                             crtItm_idCart = c,
                             crtItm_idProduct = p,
                             crtItm_idFlavor = f,
                             crtItm_idSize = z,
                             crtItm_quantity = q,
                             crtItm_unitPrice = u,
                             crtItm_totalPrice = u * q,
                             crtItm_observations = obs,
                             crtItm_dateCreated = now,
                             crtItm_dateModified = now\<rparr>],
                         identCartItem := identCartItem d1 + 1\<rparr>))"
proof -
  have rows: "unitPriceRows d1 a p z = unitPriceRows d a p z"
    by (rule unitPriceRows_cong) (simp_all add: ensureCart_frame[OF ec])
  then have "pricedAt d1 a p z u" using assms(4) by (simp add: pricedAt_def)
  note pr = pricedAt_select[OF this]
  have fu: "fitsNumeric18_6 u" by (rule fits_factor[OF assms(5) assms(6)])
  have ex: "productExists d a p" by (rule productAvailable_exists[OF assms(1)])
  have ov1: "\<not> list_ex overflows (unitPriceRows d1 a p z)" using pr(2) fu by simp
  have ov2: "\<not> overflows (Some (u * q))" using assms(5) by (simp add: overflows_def)
  show ?thesis
  proof (cases "selectLast (cartItemRows d1 a c p f z)")
    case None
    then show ?thesis
      unfolding cartItemAddTran_def
      by (simp add: assms(1-3) ex ec pr(1) ov1 ov2 Let_def)
  next
    case (Some crtItm)
    then show ?thesis
      unfolding cartItemAddTran_def
      by (simp add: assms(1-3) ex ec pr(1) ov1 ov2 Let_def)
  qed
qed


lemma db_ident_same: "d\<lparr>identCart := identCart d, identCartItem := identCartItem d\<rparr> = d"
  by simp

lemma spCartItemAdd_valid:
  assumes "LEN s \<noteq> 0" "1 \<le> q" "q \<le> 10"
  shows "spCartItemAdd now d (Some a) (Some s) (Some p) (Some f) (Some z) (Some q) obs =
    (case cartItemAddTran now d a s p f z q obs of
       (Inl e, d') \<Rightarrow> (Inl e, d\<lparr>identCart := identCart d', identCartItem := identCartItem d'\<rparr>)
     | (Inr i, d') \<Rightarrow> (Inr (cartItemResult d' i), d'))"
  using assms by (simp add: spCartItemAdd_def cartItemAddTry_def)

lemma tran_found_error:
  assumes sc: "selectCart d a s = Some c"
    and it: "selectLast (cartItemRows d a c p f z) = Some ci"
    and big: "crtItm_quantity ci + q > 10"
  shows "\<exists>e. cartItemAddTran now d a s p f z q obs = (Inl e, d)"
  unfolding cartItemAddTran_def
  by (simp add: ensureCart_found[OF sc] it big Let_def)

lemma overflows_priceFits:
  "priceFits d a p z q \<Longrightarrow> \<not> list_ex overflows (unitPriceRows d a p z)
     \<and> \<not> overflows (map_option (\<lambda>u. u * q) (selectUnitPrice d a p z))"
  by (auto simp: priceFits_def overflows_def list_all_iff list_ex_iff split: option.splits)

lemma tran_found_exceeds:
  assumes sc: "selectCart d a s = Some c"
    and it: "selectLast (cartItemRows d a c p f z) = Some ci"
    and big: "crtItm_quantity ci + q > 10" and fit: "fitsInt (crtItm_quantity ci + q)"
    and ok: "productAvailable d a p" "flavorAvailable d a p f" "sizeAvailable d a p z"
    and pf: "priceFits d a p z q"
  shows "cartItemAddTran now d a s p f z q obs = (Inl (Throw51000 quantityExceedsMaximum), d)"
  unfolding cartItemAddTran_def
  using overflows_priceFits[OF pf]
  by (simp add: ensureCart_found[OF sc] it big fit ok productAvailable_exists[OF ok(1)] Let_def)

text \<open>
  Claim C3 as stated fails on the error it names: the cart of session \<open>s1\<close> holds a
  row of quantity 8 for the cake, the cake has since sold out, and adding 5 more raises
  \<open>productNotAvailable\<close>, the check of lines 316 to 327, which runs before the merge.
  The state is left as it was.
\<close>

theorem sold_out_add_raises_not_available:
  "selectCart shopSoldOut 1 ''s1'' = Some 1
   \<and> map crtItm_quantity (cartItemRows shopSoldOut 1 1 1 1 1) = [8]
   \<and> spCartItemAdd 200 shopSoldOut (Some 1) (Some ''s1'') (Some 1) (Some 1) (Some 1)
         (Some 5) None
       = (Inl (Throw51000 productNotAvailable), shopSoldOut)
   \<and> Throw51000 productNotAvailable \<noteq> Throw51000 quantityExceedsMaximum"
  by code_simp

text \<open>
  Claim C3, amended. In a state where the cart of the session holds a row of quantity 8
  for the (product, flavor, size), adding 5 more fails and leaves the whole state as it
  was: every table, the row of quantity 8 included, and both identity counters. The
  error is \<open>quantityExceedsMaximum\<close> whenever the request passes the checks that come
  before the merge in the routine (session, product, flavor and size checks, and the
  price arithmetic within \<open>NUMERIC(18, 6)\<close>).
\<close>

theorem add_beyond_ten_rolls_back:
  assumes sc: "selectCart d a s = Some c"
    and it: "selectLast (cartItemRows d a c p f z) = Some ci"
    and q8: "crtItm_quantity ci = 8"
  shows "(\<exists>e. spCartItemAdd now d (Some a) (Some s) (Some p) (Some f) (Some z) (Some 5) obs = (Inl e, d))
    \<and> (LEN s \<noteq> 0 \<and> productAvailable d a p \<and> flavorAvailable d a p f \<and> sizeAvailable d a p z
         \<and> priceFits d a p z 5 \<longrightarrow>
        spCartItemAdd now d (Some a) (Some s) (Some p) (Some f) (Some z) (Some 5) obs
          = (Inl (Throw51000 quantityExceedsMaximum), d))"
proof (intro conjI impI)
  have big: "crtItm_quantity ci + 5 > 10" using q8 by simp
  from tran_found_error[OF sc it big]
  obtain e where e: "cartItemAddTran now d a s p f z 5 obs = (Inl e, d)" by blast
  show "\<exists>e. spCartItemAdd now d (Some a) (Some s) (Some p) (Some f) (Some z) (Some 5) obs = (Inl e, d)"
  proof (cases "LEN s = 0")
    case True
    then show ?thesis by (simp add: spCartItemAdd_def cartItemAddTry_def)
  next
    case False
    then show ?thesis by (simp add: spCartItemAdd_valid e)
  qed
next
  assume h: "LEN s \<noteq> 0 \<and> productAvailable d a p \<and> flavorAvailable d a p f \<and> sizeAvailable d a p z
         \<and> priceFits d a p z 5"
  have big: "crtItm_quantity ci + 5 > 10" using q8 by simp
  have fit: "fitsInt (crtItm_quantity ci + 5)" using q8 by (simp add: fitsInt_def)
  from h have "cartItemAddTran now d a s p f z 5 obs = (Inl (Throw51000 quantityExceedsMaximum), d)"
    by (intro tran_found_exceeds[OF sc it big fit]) auto
  with h show "spCartItemAdd now d (Some a) (Some s) (Some p) (Some f) (Some z) (Some 5) obs
          = (Inl (Throw51000 quantityExceedsMaximum), d)"
    by (simp add: spCartItemAdd_valid)
qed


theorem add_beyond_ten_rolls_back_witness:
  "selectCart shopWithEight 1 ''s1'' = Some 1
   \<and> selectLast (cartItemRows shopWithEight 1 1 1 1 1)
       = Some \<lparr>crtItm_idCartItem = 1, crtItm_idAccount = 1, crtItm_idCart = 1,
               crtItm_idProduct = 1, crtItm_idFlavor = 1, crtItm_idSize = 1,
               crtItm_quantity = 8, crtItm_unitPrice = 25000000,
               crtItm_totalPrice = 200000000, crtItm_observations = Some ''sem acucar'',
               crtItm_dateCreated = 100, crtItm_dateModified = 100\<rparr>
   \<and> LEN ''s1'' \<noteq> 0 \<and> productAvailable shopWithEight 1 1
   \<and> flavorAvailable shopWithEight 1 1 1 \<and> sizeAvailable shopWithEight 1 1 1
   \<and> priceFits shopWithEight 1 1 1 5
   \<and> spCartItemAdd 200 shopWithEight (Some 1) (Some ''s1'') (Some 1) (Some 1) (Some 1)
         (Some 5) None
       = (Inl (Throw51000 quantityExceedsMaximum), shopWithEight)"
proof -
  have sc: "selectCart shopWithEight 1 ''s1'' = Some 1"
    by code_simp
  have it: "selectLast (cartItemRows shopWithEight 1 1 1 1 1)
       = Some \<lparr>crtItm_idCartItem = 1, crtItm_idAccount = 1, crtItm_idCart = 1,
               crtItm_idProduct = 1, crtItm_idFlavor = 1, crtItm_idSize = 1,
               crtItm_quantity = 8, crtItm_unitPrice = 25000000,
               crtItm_totalPrice = 200000000, crtItm_observations = Some ''sem acucar'',
               crtItm_dateCreated = 100, crtItm_dateModified = 100\<rparr>"
    by code_simp
  have pre: "LEN ''s1'' \<noteq> 0 \<and> productAvailable shopWithEight 1 1
      \<and> flavorAvailable shopWithEight 1 1 1 \<and> sizeAvailable shopWithEight 1 1 1
      \<and> priceFits shopWithEight 1 1 1 5"
    by code_simp
  from add_beyond_ten_rolls_back [OF sc it, of 200 None] pre
  have "spCartItemAdd 200 shopWithEight (Some 1) (Some ''s1'') (Some 1) (Some 1) (Some 1)
         (Some 5) None
       = (Inl (Throw51000 quantityExceedsMaximum), shopWithEight)"
    by simp
  with sc it pre show ?thesis by simp
qed

lemma spCartItemAdd_Inr:
  assumes "spCartItemAdd now d (Some a) (Some s) (Some p) (Some f) (Some z) (Some q) obs = (Inr rows, d')"
  shows "\<exists>i. cartItemAddTran now d a s p f z q obs = (Inr i, d') \<and> rows = cartItemResult d' i
             \<and> LEN s \<noteq> 0 \<and> 1 \<le> q \<and> q \<le> 10"
  using assms
  by (auto simp: spCartItemAdd_def cartItemAddTry_def split: if_splits sum.splits prod.splits)

lemma tran_merge_Inr:
  assumes sc: "selectCart d a s = Some c"
    and it: "selectLast (cartItemRows d a c p f z) = Some ci"
    and ok: "cartItemAddTran now d a s p f z q obs = (Inr i, d')"
  shows "\<exists>u. selectUnitPrice d a p z = Some u \<and> i = crtItm_idCartItem ci
             \<and> crtItm_quantity ci + q \<le> 10
             \<and> d' = d\<lparr>tbl_cartItem :=
                        map (updateCartItem now (crtItm_idCartItem ci) (crtItm_quantity ci + q)
                               (u * (crtItm_quantity ci + q)) obs) (tbl_cartItem d)\<rparr>"
  using ok unfolding cartItemAddTran_def
  by (auto simp: ensureCart_found[OF sc] it Let_def split: if_splits option.splits)



lemma selectLast_Some_mem: "selectLast xs = Some x \<Longrightarrow> x \<in> set xs"
  by (auto simp: selectLast_def split: if_splits)

lemma no_rows_for_new_tuple:
  assumes kv: "keysValid d" and none: "cartItemsOf d a s p f z = []"
    and ec: "ensureCart now d a s = (c, d1)"
  shows "cartItemRows d1 a c p f z = []"
proof (cases "selectCart d a s")
  case None
  with ec have c: "c = identCart d" and t: "tbl_cartItem d1 = tbl_cartItem d"
    by (auto simp: ensureCart_def)
  from kv have "\<forall>r \<in> set (tbl_cartItem d). crtItm_idCart r \<noteq> identCart d"
    by (auto simp: keysValid_def list_all_iff)
  then show ?thesis
    unfolding cartItemRows_def t c by (auto simp: filter_empty_conv)
next
  case (Some c')
  with ec have c: "c' = c" and d1: "d1 = d" by (auto simp: ensureCart_def)
  from Some have "c' \<in> set (map crt_idCart (filter (\<lambda>crt. crt_idAccount crt = a \<and> crt_sessionId crt = s) (tbl_cart d)))"
    unfolding selectCart_def by (rule selectLast_Some_mem)
  then have ex: "list_ex (\<lambda>crt. crt_idCart crt = c \<and> crt_idAccount crt = a \<and> crt_sessionId crt = s) (tbl_cart d)"
    unfolding c by (auto simp: list_ex_iff)
  from none have "\<forall>r \<in> set (tbl_cartItem d). \<not> (crtItm_idAccount r = a \<and> crtItm_idProduct r = p
        \<and> crtItm_idFlavor r = f \<and> crtItm_idSize r = z
        \<and> list_ex (\<lambda>crt. crt_idCart crt = crtItm_idCart r \<and> crt_idAccount crt = a \<and> crt_sessionId crt = s) (tbl_cart d))"
    unfolding cartItemsOf_def filter_empty_conv by blast
  with ex show ?thesis
    unfolding cartItemRows_def d1 filter_empty_conv by auto
qed

text \<open>
  Claim C9. When an add succeeds by merging into the row the routine found for the
  (cart, product, flavor, size), the \<open>observations\<close> of that row are what they were
  when \<open>@observations\<close> is \<open>NULL\<close>, and the new text when one is given; the
  \<open>observations\<close> of every other row are what they were.
\<close>

theorem merge_keeps_or_replaces_observations:
  assumes "spCartItemAdd now d (Some a) (Some s) (Some p) (Some f) (Some z) (Some q) obs = (Inr rows, d')"
    and sc: "selectCart d a s = Some c"
    and it: "selectLast (cartItemRows d a c p f z) = Some ci"
  shows "map (\<lambda>r. (crtItm_idCartItem r, crtItm_observations r)) (tbl_cartItem d')
       = map (\<lambda>r. (crtItm_idCartItem r,
                     if crtItm_idCartItem r = crtItm_idCartItem ci
                     then (case obs of None \<Rightarrow> crtItm_observations r | Some t \<Rightarrow> Some t)
                     else crtItm_observations r)) (tbl_cartItem d)"
proof -
  from spCartItemAdd_Inr[OF assms(1)] obtain i where
    "cartItemAddTran now d a s p f z q obs = (Inr i, d')" by blast
  from tran_merge_Inr[OF sc it this] obtain u where
    d': "d' = d\<lparr>tbl_cartItem :=
                        map (updateCartItem now (crtItm_idCartItem ci) (crtItm_quantity ci + q)
                               (u * (crtItm_quantity ci + q)) obs) (tbl_cartItem d)\<rparr>" by blast
  show ?thesis
    unfolding d' by (cases obs) (simp_all add: updateCartItem_def)
qed



theorem merge_keeps_or_replaces_observations_witness:
  "fst (spCartItemAdd 200 shopWithEight (Some 1) (Some ''s1'') (Some 1) (Some 1) (Some 1)
          (Some 2) None)
     = Inr [\<lparr>res_idCartItem = 1, res_idCart = 1, res_quantity = 10,
              res_unitPrice = 25000000, res_totalPrice = 250000000\<rparr>]
   \<and> selectCart shopWithEight 1 ''s1'' = Some 1
   \<and> selectLast (cartItemRows shopWithEight 1 1 1 1 1)
       = Some \<lparr>crtItm_idCartItem = 1, crtItm_idAccount = 1, crtItm_idCart = 1,
               crtItm_idProduct = 1, crtItm_idFlavor = 1, crtItm_idSize = 1,
               crtItm_quantity = 8, crtItm_unitPrice = 25000000,
               crtItm_totalPrice = 200000000, crtItm_observations = Some ''sem acucar'',
               crtItm_dateCreated = 100, crtItm_dateModified = 100\<rparr>
   \<and> map (\<lambda>r. (crtItm_idCartItem r, crtItm_observations r))
         (tbl_cartItem (snd (spCartItemAdd 200 shopWithEight (Some 1) (Some ''s1'') (Some 1)
                               (Some 1) (Some 1) (Some 2) None)))
       = [(1, Some ''sem acucar'')]"
proof -
  have r: "fst (spCartItemAdd 200 shopWithEight (Some 1) (Some ''s1'') (Some 1) (Some 1)
                  (Some 1) (Some 2) None)
     = Inr [\<lparr>res_idCartItem = 1, res_idCart = 1, res_quantity = 10,
              res_unitPrice = 25000000, res_totalPrice = 250000000\<rparr>]"
    by code_simp
  then have eq: "spCartItemAdd 200 shopWithEight (Some 1) (Some ''s1'') (Some 1) (Some 1)
                  (Some 1) (Some 2) None
     = (Inr [\<lparr>res_idCartItem = 1, res_idCart = 1, res_quantity = 10,
               res_unitPrice = 25000000, res_totalPrice = 250000000\<rparr>],
        snd (spCartItemAdd 200 shopWithEight (Some 1) (Some ''s1'') (Some 1) (Some 1)
               (Some 1) (Some 2) None))"
    by (simp add: prod_eq_iff)
  have sc: "selectCart shopWithEight 1 ''s1'' = Some 1"
    by code_simp
  have it: "selectLast (cartItemRows shopWithEight 1 1 1 1 1)
       = Some \<lparr>crtItm_idCartItem = 1, crtItm_idAccount = 1, crtItm_idCart = 1,
               crtItm_idProduct = 1, crtItm_idFlavor = 1, crtItm_idSize = 1,
               crtItm_quantity = 8, crtItm_unitPrice = 25000000,
               crtItm_totalPrice = 200000000, crtItm_observations = Some ''sem acucar'',
               crtItm_dateCreated = 100, crtItm_dateModified = 100\<rparr>"
    by code_simp
  have old: "map (\<lambda>r. (crtItm_idCartItem r, crtItm_observations r)) (tbl_cartItem shopWithEight)
       = [(1, Some ''sem acucar'')]"
    by code_simp
  have "map (\<lambda>r. (crtItm_idCartItem r, crtItm_observations r))
         (tbl_cartItem (snd (spCartItemAdd 200 shopWithEight (Some 1) (Some ''s1'') (Some 1)
                               (Some 1) (Some 1) (Some 2) None)))
       = map (\<lambda>r. (crtItm_idCartItem r, crtItm_observations r)) (tbl_cartItem shopWithEight)"
    using merge_keeps_or_replaces_observations [OF eq sc it]
    by (simp add: if_distrib cong: if_cong)
  with r sc it old show ?thesis by simp
qed

lemma cartItemResult_append_new:
  assumes "\<forall>r \<in> set rows. crtItm_idCartItem r \<noteq> crtItm_idCartItem new"
  shows "cartItemResult (d\<lparr>tbl_cartItem := rows @ [new]\<rparr>) (crtItm_idCartItem new)
     = [\<lparr>res_idCartItem = crtItm_idCartItem new, res_idCart = crtItm_idCart new,
         res_quantity = crtItm_quantity new, res_unitPrice = crtItm_unitPrice new,
         res_totalPrice = crtItm_totalPrice new\<rparr>]"
proof -
  from assms have "filter (\<lambda>r. crtItm_idCartItem r = crtItm_idCartItem new) rows = []"
    by (simp add: filter_empty_conv)
  then show ?thesis by (simp add: cartItemResult_def)
qed

lemma keysValid_ids:
  assumes "keysValid d"
  shows "\<forall>r \<in> set (tbl_cartItem d). crtItm_idCartItem r \<noteq> identCartItem d"
    and "\<forall>r \<in> set (tbl_cartItem d). crtItm_idCart r \<noteq> identCart d"
    and "\<forall>c \<in> set (tbl_cart d). crt_idCart c \<noteq> identCart d"
  using assms by (auto simp: keysValid_def list_all_iff)

lemma insert_path:
  assumes ok: "productAvailable d a p" "flavorAvailable d a p f" "sizeAvailable d a p z"
    and pr: "pricedAt d a p z u" and fits: "fitsNumeric18_6 (u * q)"
    and args: "LEN s \<noteq> 0" "1 \<le> q" "q \<le> 10"
    and kv: "keysValid d" and new: "cartItemsOf d a s p f z = []"
    and ec: "ensureCart now d a s = (c, d1)"
  shows "spCartItemAdd now d (Some a) (Some s) (Some p) (Some f) (Some z) (Some q) obs
     = (Inr [\<lparr>res_idCartItem = identCartItem d, res_idCart = c, res_quantity = q,
               res_unitPrice = u, res_totalPrice = u * q\<rparr>],
        d1\<lparr>tbl_cartItem := tbl_cartItem d @
               [\<lparr>crtItm_idCartItem = identCartItem d, crtItm_idAccount = a,
                 crtItm_idCart = c, crtItm_idProduct = p, crtItm_idFlavor = f,
                 crtItm_idSize = z, crtItm_quantity = q, crtItm_unitPrice = u,
                 crtItm_totalPrice = u * q, crtItm_observations = obs,
                 crtItm_dateCreated = now, crtItm_dateModified = now\<rparr>],
             identCartItem := identCartItem d + 1\<rparr>)"
proof -
  let ?new = "\<lparr>crtItm_idCartItem = identCartItem d, crtItm_idAccount = a,
                 crtItm_idCart = c, crtItm_idProduct = p, crtItm_idFlavor = f,
                 crtItm_idSize = z, crtItm_quantity = q, crtItm_unitPrice = u,
                 crtItm_totalPrice = u * q, crtItm_observations = obs,
                 crtItm_dateCreated = now, crtItm_dateModified = now\<rparr>"
  have none: "selectLast (cartItemRows d1 a c p f z) = None"
    using no_rows_for_new_tuple[OF kv new ec] by (simp add: selectLast_def)
  note fr = ensureCart_frame[OF ec]
  have tran: "cartItemAddTran now d a s p f z q obs =
     (Inr (identCartItem d),
      d1\<lparr>tbl_cartItem := tbl_cartItem d @ [?new], identCartItem := identCartItem d + 1\<rparr>)"
    unfolding tran_ok[OF ok pr fits args(2) ec] none by (simp add: fr)
  have res: "cartItemResult (d1\<lparr>tbl_cartItem := tbl_cartItem d @ [?new],
                 identCartItem := identCartItem d + 1\<rparr>) (identCartItem d)
     = [\<lparr>res_idCartItem = identCartItem d, res_idCart = c, res_quantity = q,
               res_unitPrice = u, res_totalPrice = u * q\<rparr>]"
    using cartItemResult_append_new[of "tbl_cartItem d" ?new "d1\<lparr>identCartItem := identCartItem d + 1\<rparr>"]
      keysValid_ids(1)[OF kv]
    by (simp add: cartItemResult_def)
  show ?thesis
    unfolding spCartItemAdd_valid[OF args] tran by (simp add: res)
qed















section \<open>Cart item add and soft deletion\<close>

lemma tran_flavor_error:
  assumes "productAvailable d a p"
  shows "fst (cartItemAddTran now d a s p f z q obs) = Inl (Throw51000 flavorNotAvailable)
           \<longleftrightarrow> \<not> flavorAvailable d a p f"
  using assms productAvailable_exists[OF assms]
  unfolding cartItemAddTran_def
  by (auto simp: Let_def split: prod.splits option.splits)

lemma tran_size_error:
  assumes "productAvailable d a p" "flavorAvailable d a p f"
  shows "fst (cartItemAddTran now d a s p f z q obs) = Inl (Throw51000 sizeNotAvailable)
           \<longleftrightarrow> \<not> sizeAvailable d a p z"
  using assms productAvailable_exists[OF assms(1)]
  unfolding cartItemAddTran_def
  by (auto simp: Let_def split: prod.splits option.splits)

lemma fst_spCartItemAdd_valid:
  assumes "LEN s \<noteq> 0" "1 \<le> q" "q \<le> 10"
  shows "fst (spCartItemAdd now d (Some a) (Some s) (Some p) (Some f) (Some z) (Some q) obs) = Inl e
     \<longleftrightarrow> fst (cartItemAddTran now d a s p f z q obs) = Inl e"
  unfolding spCartItemAdd_valid[OF assms]
  by (auto split: prod.splits sum.splits)

lemma only_if_flavor:
  "fst (spCartItemAdd now d a s p f z q obs) = Inl (Throw51000 flavorNotAvailable) \<Longrightarrow>
   \<exists>a' p' f'. a = Some a' \<and> p = Some p' \<and> f = Some f' \<and> \<not> flavorAvailable d a' p' f'"
  unfolding spCartItemAdd_def cartItemAddTry_def cartItemAddTran_def
  by (auto simp: Let_def split: prod.splits option.splits sum.splits if_splits)


lemma flags_checks:
  "productExists (withDeletedFlags g h d) = productExists d"
  "productAvailable (withDeletedFlags g h d) = productAvailable d"
  "flavorAvailable (withDeletedFlags g h d) = flavorAvailable d"
  "sizeAvailable (withDeletedFlags g h d) = sizeAvailable d"
  "selectCart (withDeletedFlags g h d) = selectCart d"
  "cartItemRows (withDeletedFlags g h d) = cartItemRows d"
  "cartItemResult (withDeletedFlags g h d) = cartItemResult d"
  by (intro ext; simp add: withDeletedFlags_def productExists_def productAvailable_def
        flavorAvailable_def sizeAvailable_def selectCart_def cartItemRows_def cartItemResult_def)+

lemma flags_unitPriceRows:
  "unitPriceRows (withDeletedFlags g h d) = unitPriceRows d"
  by (intro ext) (simp add: withDeletedFlags_def unitPriceRows_def comp_def cong: if_cong)

lemma flags_selectUnitPrice:
  "selectUnitPrice (withDeletedFlags g h d) = selectUnitPrice d"
  by (intro ext) (simp add: selectUnitPrice_def flags_unitPriceRows)

lemma flags_fields:
  "tbl_cartItem (withDeletedFlags g h d) = tbl_cartItem d"
  "identCartItem (withDeletedFlags g h d) = identCartItem d"
  "identCart (withDeletedFlags g h d) = identCart d"
  "tbl_cart (withDeletedFlags g h d) = tbl_cart d"
  by (simp_all add: withDeletedFlags_def)

lemma flags_update:
  "(withDeletedFlags g h d)\<lparr>tbl_cartItem := x\<rparr> = withDeletedFlags g h (d\<lparr>tbl_cartItem := x\<rparr>)"
  "(withDeletedFlags g h d)\<lparr>identCartItem := i\<rparr> = withDeletedFlags g h (d\<lparr>identCartItem := i\<rparr>)"
  "(withDeletedFlags g h d)\<lparr>identCart := j\<rparr> = withDeletedFlags g h (d\<lparr>identCart := j\<rparr>)"
  "(withDeletedFlags g h d)\<lparr>tbl_cart := y\<rparr> = withDeletedFlags g h (d\<lparr>tbl_cart := y\<rparr>)"
  by (simp_all add: withDeletedFlags_def)

lemma flags_ensureCart:
  "ensureCart now (withDeletedFlags g h d) a s
     = (fst (ensureCart now d a s), withDeletedFlags g h (snd (ensureCart now d a s)))"
  by (simp add: ensureCart_def flags_checks flags_fields flags_update split: option.splits)

lemma flags_tran:
  "cartItemAddTran now (withDeletedFlags g h d) a s p f z q obs
     = (fst (cartItemAddTran now d a s p f z q obs),
        withDeletedFlags g h (snd (cartItemAddTran now d a s p f z q obs)))"
proof -
  obtain c d1 where ec: "ensureCart now d a s = (c, d1)" by (cases "ensureCart now d a s")
  show ?thesis
    unfolding cartItemAddTran_def
    by (simp add: flags_checks flags_ensureCart ec flags_unitPriceRows flags_selectUnitPrice
          flags_fields flags_update Let_def split: option.splits)
qed

lemma flags_try:
  "cartItemAddTry now (withDeletedFlags g h d) a s p f z q obs
     = (fst (cartItemAddTry now d a s p f z q obs),
        withDeletedFlags g h (snd (cartItemAddTry now d a s p f z q obs)))"
  unfolding cartItemAddTry_def
  by (simp add: flags_tran split: option.splits)

lemma flags_sp:
  "spCartItemAdd now (withDeletedFlags g h d) a s p f z q obs
     = (fst (spCartItemAdd now d a s p f z q obs),
        withDeletedFlags g h (snd (spCartItemAdd now d a s p f z q obs)))"
proof -
  obtain r d' where t: "cartItemAddTry now d a s p f z q obs = (r, d')"
    by (cases "cartItemAddTry now d a s p f z q obs")
  show ?thesis
    unfolding spCartItemAdd_def flags_try t
    by (cases r) (simp_all add: flags_fields flags_update flags_checks)
qed


lemma shopDeleted_add_and_detail:
  "flv_deleted (hd (tbl_flavor shopDeleted)) \<and> siz_deleted (hd (tbl_size shopDeleted))
   \<and> flavorAvailable shopDeleted 1 1 1 \<and> sizeAvailable shopDeleted 1 1 1
   \<and> fst (spCartItemAdd 100 shopDeleted (Some 1) (Some ''s1'') (Some 1) (Some 1) (Some 1)
            (Some 2) None)
       = Inr [\<lparr>res_idCartItem = 1, res_idCart = 1, res_quantity = 2,
                res_unitPrice = 25000000, res_totalPrice = 50000000\<rparr>]
   \<and> spProductGet shopDeleted (Some 1) (Some 1)
       = Inr \<lparr>get_product = [cake], get_flavors = [], get_sizes = []\<rparr>
   \<and> spProductGet shop (Some 1) (Some 1)
       = Inr \<lparr>get_product = [cake], get_flavors = [(1, ''Cenoura'', [])],
               get_sizes = [(1, ''Medio'', [], 10, 5000000)]\<rparr>"
  by code_simp

text \<open>
  Claim C10 as stated fails on its equivalences: for a product that does not exist the
  (product, flavor) association is absent, yet the add raises \<open>productDoesntExist\<close>,
  the check of lines 305 to 314; and when neither the flavor nor the size is available
  for the product, the add raises \<open>flavorNotAvailable\<close>, not \<open>sizeNotAvailable\<close>.
\<close>

theorem absent_association_other_error:
  "\<not> flavorAvailable shop 1 2 1
   \<and> fst (spCartItemAdd 100 shop (Some 1) (Some ''s1'') (Some 2) (Some 1) (Some 1) (Some 2)
            None)
       = Inl (Throw51000 productDoesntExist)
   \<and> Throw51000 productDoesntExist \<noteq> Throw51000 flavorNotAvailable
   \<and> \<not> sizeAvailable shop 1 1 2 \<and> \<not> flavorAvailable shop 1 1 2
   \<and> fst (spCartItemAdd 100 shop (Some 1) (Some ''s1'') (Some 1) (Some 2) (Some 2) (Some 2)
            None)
       = Inl (Throw51000 flavorNotAvailable)
   \<and> Throw51000 flavorNotAvailable \<noteq> Throw51000 sizeNotAvailable"
  by code_simp

text \<open>
  Claim C10, amended. For a request that reaches the flavor check (valid arguments,
  product available), the add raises \<open>flavorNotAvailable\<close> exactly when no association row of
  the (product, flavor) is available, that is when the row is absent or its flag is
  false; for one that reaches the size check it raises \<open>sizeNotAvailable\<close> exactly
  when no association row of the (product, size) is available. The soft-deletion flags
  of the flavor and size rows change neither the result nor the state the add leaves.
  In the shop whose flavor and size are soft-deleted with available associations the
  add succeeds, while \<open>spProductGet\<close> lists neither the flavor nor the size.
\<close>

theorem add_ignores_soft_delete:
  "(LEN s \<noteq> 0 \<and> 1 \<le> q \<and> q \<le> 10 \<and> productAvailable d a p \<longrightarrow>
      (fst (spCartItemAdd now d (Some a) (Some s) (Some p) (Some f) (Some z) (Some q) obs)
         = Inl (Throw51000 flavorNotAvailable)
       \<longleftrightarrow> \<not> flavorAvailable d a p f))
   \<and> (LEN s' \<noteq> 0 \<and> 1 \<le> q' \<and> q' \<le> 10 \<and> productAvailable d' a' p'
        \<and> flavorAvailable d' a' p' f' \<longrightarrow>
      (fst (spCartItemAdd now' d' (Some a') (Some s') (Some p') (Some f') (Some z') (Some q')
              obs')
         = Inl (Throw51000 sizeNotAvailable)
       \<longleftrightarrow> \<not> sizeAvailable d' a' p' z'))
   \<and> spCartItemAdd t (withDeletedFlags g h e) ia si ip iflv isz iq io
       = (fst (spCartItemAdd t e ia si ip iflv isz iq io),
          withDeletedFlags g h (snd (spCartItemAdd t e ia si ip iflv isz iq io)))
   \<and> flv_deleted (hd (tbl_flavor shopDeleted)) \<and> siz_deleted (hd (tbl_size shopDeleted))
   \<and> flavorAvailable shopDeleted 1 1 1 \<and> sizeAvailable shopDeleted 1 1 1
   \<and> fst (spCartItemAdd 100 shopDeleted (Some 1) (Some ''s1'') (Some 1) (Some 1) (Some 1)
            (Some 2) None)
       = Inr [\<lparr>res_idCartItem = 1, res_idCart = 1, res_quantity = 2,
                res_unitPrice = 25000000, res_totalPrice = 50000000\<rparr>]
   \<and> spProductGet shopDeleted (Some 1) (Some 1)
       = Inr \<lparr>get_product = [cake], get_flavors = [], get_sizes = []\<rparr>"
proof (intro conjI impI)
  assume h: "LEN s \<noteq> 0 \<and> 1 \<le> q \<and> q \<le> 10 \<and> productAvailable d a p"
  then show "fst (spCartItemAdd now d (Some a) (Some s) (Some p) (Some f) (Some z) (Some q) obs)
         = Inl (Throw51000 flavorNotAvailable)
       \<longleftrightarrow> \<not> flavorAvailable d a p f"
    by (simp add: fst_spCartItemAdd_valid tran_flavor_error)
next
  assume h: "LEN s' \<noteq> 0 \<and> 1 \<le> q' \<and> q' \<le> 10 \<and> productAvailable d' a' p'
        \<and> flavorAvailable d' a' p' f'"
  then show "fst (spCartItemAdd now' d' (Some a') (Some s') (Some p') (Some f') (Some z')
                    (Some q') obs')
         = Inl (Throw51000 sizeNotAvailable)
       \<longleftrightarrow> \<not> sizeAvailable d' a' p' z'"
    by (simp add: fst_spCartItemAdd_valid tran_size_error)
next
  show "spCartItemAdd t (withDeletedFlags g h e) ia si ip iflv isz iq io
       = (fst (spCartItemAdd t e ia si ip iflv isz iq io),
          withDeletedFlags g h (snd (spCartItemAdd t e ia si ip iflv isz iq io)))"
    by (rule flags_sp)
qed (use shopDeleted_add_and_detail in simp_all)

theorem add_ignores_soft_delete_witness:
  "LEN ''s1'' \<noteq> 0 \<and> (1::int) \<le> 2 \<and> (2::int) \<le> 10 \<and> productAvailable shop 1 1
   \<and> \<not> flavorAvailable shop 1 1 2
   \<and> fst (spCartItemAdd 100 shop (Some 1) (Some ''s1'') (Some 1) (Some 2) (Some 1) (Some 2)
            None)
       = Inl (Throw51000 flavorNotAvailable)
   \<and> flavorAvailable shop 1 1 1 \<and> \<not> sizeAvailable shop 1 1 2
   \<and> fst (spCartItemAdd 100 shop (Some 1) (Some ''s1'') (Some 1) (Some 1) (Some 2) (Some 2)
            None)
       = Inl (Throw51000 sizeNotAvailable)"
proof -
  have pre: "LEN ''s1'' \<noteq> 0 \<and> (1::int) \<le> 2 \<and> (2::int) \<le> 10 \<and> productAvailable shop 1 1"
    by code_simp
  have fl: "\<not> flavorAvailable shop 1 1 2" "flavorAvailable shop 1 1 1"
      "\<not> sizeAvailable shop 1 1 2"
    by code_simp+
  from add_ignores_soft_delete
         [of "''s1''" 2 shop 1 1 100 2 1 None "''s1''" 2 shop 1 1 1 100 2 None]
    pre fl
  show ?thesis by blast
qed

section \<open>The derived total of a cart item\<close>

text \<open>The insert path keeps every total the product of unit price and quantity.\<close>

lemma insert_keeps_totals:
  assumes "productAvailable d a p" "flavorAvailable d a p f" "sizeAvailable d a p z"
    and "pricedAt d a p z u" and "fitsNumeric18_6 (u * q)"
    and "LEN s \<noteq> 0" "1 \<le> q" "q \<le> 10"
    and "keysValid d" and "cartItemsOf d a s p f z = []"
    and "totalsConsistent d"
  shows "totalsConsistent
           (snd (spCartItemAdd now d (Some a) (Some s) (Some p) (Some f) (Some z) (Some q) obs))"
proof -
  obtain c d1 where ec: "ensureCart now d a s = (c, d1)" by (cases "ensureCart now d a s")
  show ?thesis
    unfolding insert_path[OF assms(1-10) ec]
    using assms(11) by (simp add: totalsConsistent_def)
qed

text \<open>
  Claim C1 on the merge path after a price change. The cart holds 3 of the cake at the
  unit price 25.00 (total 75.00); the base price of the cake goes from 20.00 to 30.00;
  adding 4 more writes quantity 7 and total 245.00 = 35.00 * 7 to the row and leaves its
  unit price at 25.00, so the row's total is no longer its unit price times its quantity.
\<close>

theorem merge_after_price_change_breaks_total:
  "totalsConsistent shopRepriced
   \<and> productAvailable shopRepriced 1 1 \<and> flavorAvailable shopRepriced 1 1 1
   \<and> sizeAvailable shopRepriced 1 1 1
   \<and> fst (spCartItemAdd 200 shopRepriced (Some 1) (Some ''s1'') (Some 1) (Some 1) (Some 1)
            (Some 4) None)
       = Inr [\<lparr>res_idCartItem = 1, res_idCart = 1, res_quantity = 7,
                res_unitPrice = 25000000, res_totalPrice = 245000000\<rparr>]
   \<and> map (\<lambda>r. (crtItm_quantity r, crtItm_unitPrice r, crtItm_totalPrice r))
         (tbl_cartItem (snd (spCartItemAdd 200 shopRepriced (Some 1) (Some ''s1'') (Some 1)
                               (Some 1) (Some 1) (Some 4) None)))
       = [(7, 25000000, 245000000)]
   \<and> \<not> totalsConsistent
          (snd (spCartItemAdd 200 shopRepriced (Some 1) (Some ''s1'') (Some 1) (Some 1)
                  (Some 1) (Some 4) None))"
  by code_simp

theorem merge_after_price_change_breaks_total_witness:
  "\<not> totalsConsistent
        (snd (spCartItemAdd 200 shopRepriced (Some 1) (Some ''s1'') (Some 1) (Some 1)
                (Some 1) (Some 4) None))"
  using merge_after_price_change_breaks_total by blast

end
